theory Spec2Isabelle
  imports Complex_Main
begin

section \<open>JavaScript values and objects\<close>

text \<open>
  The viewer passes schema fragments and validation values around as \<open>unknown\<close>.
  They are JSON-like values.  A number is the rational it denotes (every finite double
  is one; \<open>-0\<close> and \<open>0\<close> are not told apart, as \<open>===\<close>, \<open>String\<close> and
  truthiness do not tell them apart either; \<open>NaN\<close> and the infinities do not occur in
  a JSON document and are left out).  An object is the list of its own enumerable
  entries in enumeration order; \<open>is_object\<close> says that no key occurs twice.
  Strings are byte strings (UTF-8).
\<close>

datatype jsval =
    JUndefined
  | JNull
  | JBool bool
  | JNum rat
  | JStr string
  | JArr "jsval list"
  | JObj "(string \<times> jsval) list"

type_synonym dict = "(string \<times> jsval) list"

definition is_object :: "dict \<Rightarrow> bool" where
  "is_object d = distinct (map fst d)"

text \<open>\<open>key in d\<close> and \<open>d[key]\<close> for an own key; a missing key reads \<open>undefined\<close>.\<close>

definition dict_get :: "dict \<Rightarrow> string \<Rightarrow> jsval option" where
  "dict_get d k = map_of d k"

definition dict_index :: "dict \<Rightarrow> string \<Rightarrow> jsval" where
  "dict_index d k = (case dict_get d k of None \<Rightarrow> JUndefined | Some v \<Rightarrow> v)"

text \<open>\<open>d[k] = v\<close>: an existing key keeps its place, a new key goes last.\<close>

fun dict_set :: "dict \<Rightarrow> string \<Rightarrow> jsval \<Rightarrow> dict" where
  "dict_set [] k v = [(k, v)]"
| "dict_set ((k', v') # d) k v = (if k' = k then (k, v) # d else (k', v') # dict_set d k v)"

text \<open>\<open>delete d[k]\<close>.\<close>

definition dict_delete :: "dict \<Rightarrow> string \<Rightarrow> dict" where
  "dict_delete d k = filter (\<lambda>e. fst e \<noteq> k) d"

text \<open>Object spread \<open>{...d, ...e}\<close>: the entries of \<open>e\<close> are assigned in order.\<close>

fun spread :: "dict \<Rightarrow> dict \<Rightarrow> dict" where
  "spread d [] = d"
| "spread d ((k, v) # e) = spread (dict_set d k v) e"

text \<open>
  Exceptions.  A computation that may throw returns \<open>Inl\<close> of the exception or
  \<open>Inr\<close> of its result; \<open>sequence_exn\<close> runs a list of them in order and stops at
  the first that throws, as \<open>Array.prototype.map\<close> with a throwing callback does.
\<close>

datatype exn = TypeError string | Error string

fun sequence_exn :: "(exn + 'a) list \<Rightarrow> exn + 'a list" where
  "sequence_exn [] = Inr []"
| "sequence_exn (Inl e # rs) = Inl e"
| "sequence_exn (Inr a # rs) = (case sequence_exn rs of Inl e \<Rightarrow> Inl e | Inr as \<Rightarrow> Inr (a # as))"

text \<open>lodash \<open>keys\<close>, \<open>pick\<close>, \<open>omit\<close>, \<open>pickBy\<close> and \<open>uniq\<close>.  \<open>pick\<close> builds
  its result in the order of the requested names; \<open>pickBy\<close> calls the predicate on
  every value in order, and a predicate that throws ends it; \<open>uniq\<close> keeps first
  occurrences.\<close>

definition keys :: "dict \<Rightarrow> string list" where
  "keys d = map fst d"

fun pick :: "dict \<Rightarrow> string list \<Rightarrow> dict" where
  "pick d [] = []"
| "pick d (k # ks) = (case dict_get d k of None \<Rightarrow> pick d ks | Some v \<Rightarrow> (k, v) # pick d ks)"

definition omit :: "dict \<Rightarrow> string list \<Rightarrow> dict" where
  "omit d ks = filter (\<lambda>e. fst e \<notin> set ks) d"

fun pickBy :: "dict \<Rightarrow> (jsval \<Rightarrow> exn + bool) \<Rightarrow> exn + dict" where
  "pickBy [] p = Inr []"
| "pickBy ((k, v) # d) p =
     (case p v of
        Inl e \<Rightarrow> Inl e
      | Inr b \<Rightarrow>
          (case pickBy d p of
             Inl e \<Rightarrow> Inl e
           | Inr r \<Rightarrow> Inr (if b then (k, v) # r else r)))"

definition uniq :: "'a list \<Rightarrow> 'a list" where
  "uniq xs = rev (remdups (rev xs))"

text \<open>Truthiness (\<open>ToBoolean\<close>).\<close>

fun truthy :: "jsval \<Rightarrow> bool" where
  "truthy JUndefined = False"
| "truthy JNull = False"
| "truthy (JBool b) = b"
| "truthy (JNum r) = (r \<noteq> 0)"
| "truthy (JStr s) = (s \<noteq> [])"
| "truthy (JArr xs) = True"
| "truthy (JObj d) = True"

text \<open>
  \<open>String(v)\<close> and template-literal interpolation (\<open>ToString\<close>).  The conversion of a
  number to its decimal text is the language's own and is the parameter \<open>ns\<close>.
  An array joins its elements with commas, \<open>null\<close> and \<open>undefined\<close> elements
  giving the empty string.  An object prints as \<open>[object Object]\<close>, through the
  \<open>toString\<close> it inherits; an object with an entry of its own under the key
  \<open>toString\<close> cannot be converted (the entry, a JSON value, is not callable, and
  \<open>valueOf\<close> gives back the object): the conversion throws a \<open>TypeError\<close>.
\<close>

fun join_comma :: "string list \<Rightarrow> string" where
  "join_comma [] = []"
| "join_comma [s] = s"
| "join_comma (s # t # ss) = s @ '','' @ join_comma (t # ss)"

fun ToString :: "(rat \<Rightarrow> string) \<Rightarrow> jsval \<Rightarrow> exn + string" where
  "ToString ns JUndefined = Inr ''undefined''"
| "ToString ns JNull = Inr ''null''"
| "ToString ns (JBool b) = Inr (if b then ''true'' else ''false'')"
| "ToString ns (JNum r) = Inr (ns r)"
| "ToString ns (JStr s) = Inr s"
| "ToString ns (JArr xs) =
     (case sequence_exn
             (map (\<lambda>v. if v = JUndefined \<or> v = JNull then Inr [] else ToString ns v) xs) of
        Inl e \<Rightarrow> Inl e
      | Inr texts \<Rightarrow> Inr (join_comma texts))"
| "ToString ns (JObj d) =
     (if ''toString'' \<in> set (map fst d)
      then Inl (TypeError ''Cannot convert object to primitive value'')
      else Inr ''[object Object]'')"

text \<open>
  \<open>a === b\<close> where \<open>a\<close> is a number or a string: \<open>b\<close> is the same primitive.
  (Objects and arrays compare by identity, which \<open>jsval\<close> does not carry; the
  source compares against number and string constants only.)
\<close>

fun strict_eq_prim :: "jsval \<Rightarrow> jsval \<Rightarrow> bool" where
  "strict_eq_prim (JNum a) b = (b = JNum a)"
| "strict_eq_prim (JStr a) b = (b = JStr a)"
| "strict_eq_prim _ _ = False"

section \<open>Validations.tsx\<close>

definition numberValidationNames :: "string list" where
  "numberValidationNames =
     [''minimum'', ''maximum'', ''minLength'', ''maxLength'', ''minItems'', ''maxItems'',
      ''exclusiveMinimum'', ''exclusiveMaximum'']"

definition exampleValidationNames :: "string list" where
  "exampleValidationNames = [''examples'']"

definition excludedValidations :: "string list" where
  "excludedValidations = [''exclusiveMinimum'', ''exclusiveMaximum'', ''readOnly'', ''writeOnly'']"

text \<open>
  \<open>numberValidationFormatters[key]\<close>: the formatter registered under \<open>key\<close>, if any.
  \<open>template lead value trail\<close> is the template literal that puts the value, converted
  to a string, between the two texts.
\<close>

definition template :: "(rat \<Rightarrow> string) \<Rightarrow> string \<Rightarrow> jsval \<Rightarrow> string \<Rightarrow> exn + string" where
  "template ns lead value trail =
     (case ToString ns value of Inl e \<Rightarrow> Inl e | Inr s \<Rightarrow> Inr (lead @ s @ trail))"

definition numberValidationFormatters :: "(rat \<Rightarrow> string) \<Rightarrow> string \<Rightarrow> (jsval \<Rightarrow> exn + string) option" where
  "numberValidationFormatters ns key =
     (if key = ''minimum'' then Some (\<lambda>value. template ns ''>= '' value [])
      else if key = ''exclusiveMinimum'' then Some (\<lambda>value. template ns ''> '' value [])
      else if key = ''minItems'' then Some (\<lambda>value. template ns ''>= '' value '' items'')
      else if key = ''minLength'' then Some (\<lambda>value. template ns ''>= '' value '' characters'')
      else if key = ''maximum'' then Some (\<lambda>value. template ns ''<= '' value [])
      else if key = ''exclusiveMaximum'' then Some (\<lambda>value. template ns ''< '' value [])
      else if key = ''maxItems'' then Some (\<lambda>value. template ns ''<= '' value '' items'')
      else if key = ''maxLength'' then Some (\<lambda>value. template ns ''<= '' value '' characters'')
      else None)"

text \<open>
  \<open>oasFormats\<close>.  The bounds are the doubles the source's expressions evaluate to:
  \<open>2 ** 63 - 1\<close> and \<open>2 ** 128 - 1\<close> round to \<open>2 ** 63\<close> and \<open>2 ** 128\<close>, and
  \<open>Number.MAX_VALUE\<close> is \<open>(2 ** 53 - 1) * 2 ** 971\<close>.  The pattern is the string the
  literal \<open>'^[\\w\\d+\\/=]*$'\<close> denotes.
\<close>

definition Number_MAX_VALUE :: rat where
  "Number_MAX_VALUE = (2 ^ 53 - 1) * 2 ^ 971"

definition oasFormats :: "(string \<times> dict) list" where
  "oasFormats =
     [(''int32'', [(''minimum'', JNum (0 - 2 ^ 31)), (''maximum'', JNum (2 ^ 31 - 1))]),
      (''int64'', [(''minimum'', JNum (0 - 2 ^ 63)), (''maximum'', JNum (2 ^ 63))]),
      (''float'', [(''minimum'', JNum (0 - 2 ^ 128)), (''maximum'', JNum (2 ^ 128))]),
      (''double'', [(''minimum'', JNum (0 - Number_MAX_VALUE)),
                    (''maximum'', JNum Number_MAX_VALUE)]),
      (''byte'', [(''pattern'', JStr [CHR ''^'', CHR ''['', CHR 0x5C, CHR ''w'', CHR 0x5C, CHR ''d'',
                                      CHR ''+'', CHR 0x5C, CHR ''/'', CHR ''='', CHR '']'', CHR ''*'', CHR ''$''])])]"

text \<open>
  \<open>format in oasFormats\<close> also holds for the names \<open>oasFormats\<close> inherits from
  \<open>Object.prototype\<close>; what is found under such a name has no enumerable entries.
\<close>

definition Object_prototype_names :: "string list" where
  "Object_prototype_names =
     [''constructor'', ''__defineGetter__'', ''__defineSetter__'', ''hasOwnProperty'',
      ''__lookupGetter__'', ''__lookupSetter__'', ''isPrototypeOf'', ''propertyIsEnumerable'',
      ''toString'', ''valueOf'', ''__proto__'', ''toLocaleString'']"

definition in_oasFormats :: "string \<Rightarrow> bool" where
  "in_oasFormats format \<longleftrightarrow> format \<in> set (map fst oasFormats) \<or> format \<in> set Object_prototype_names"

definition oasFormats_entries :: "string \<Rightarrow> dict" where
  "oasFormats_entries format = (case map_of oasFormats format of None \<Rightarrow> [] | Some es \<Rightarrow> es)"

fun filterLoop :: "dict \<Rightarrow> dict \<Rightarrow> dict" where
  "filterLoop [] newValues = newValues"
| "filterLoop ((key, value) # es) newValues =
     filterLoop es (if strict_eq_prim value (dict_index newValues key)
                    then dict_delete newValues key else newValues)"

definition filterOutOasFormatValidations :: "string \<Rightarrow> dict \<Rightarrow> dict" where
  "filterOutOasFormatValidations format values =
     (if \<not> in_oasFormats format then values
      else filterLoop (oasFormats_entries format) values)"

text \<open>
  A \<open>RegularNode\<close> of the schema tree, as far as this file reads it: \<open>enum\<close> is an
  array or \<open>null\<close> (\<open>None\<close>), \<open>format\<close> a string or \<open>null\<close>; \<open>annotations\<close> is
  \<open>None\<close> when the node has no such property.
\<close>

record RegularNode =
  enum :: "jsval list option"
  format :: "string option"
  annotations :: "dict option"
  validations :: dict

definition getFilteredValidations :: "RegularNode \<Rightarrow> dict" where
  "getFilteredValidations schemaNode =
     (case format schemaNode of
        Some f \<Rightarrow> filterOutOasFormatValidations f (validations schemaNode)
      | None \<Rightarrow> validations schemaNode)"

definition getValidationsFromSchema :: "RegularNode \<Rightarrow> dict" where
  "getValidationsFromSchema schemaNode =
     spread
       (spread
          (case enum schemaNode of Some e \<Rightarrow> [(''enum'', JArr e)] | None \<Rightarrow> [])
          (case annotations schemaNode of
             Some a \<Rightarrow>
               spread
                 (if truthy (dict_index a ''default'') then [(''default'', dict_index a ''default'')] else [])
                 (if truthy (dict_index a ''examples'') then [(''examples'', dict_index a ''examples'')] else [])
           | None \<Rightarrow> []))
       (getFilteredValidations schemaNode)"

definition validationCount :: "RegularNode \<Rightarrow> nat" where
  "validationCount schemaNode =
     (let validations = getValidationsFromSchema schemaNode;
          validationKeys = keys (omit validations excludedValidations)
      in length (uniq (map (\<lambda>key. if key \<in> set numberValidationNames then ''number'' else key)
                         validationKeys)))"

text \<open>
  \<open>createStringFormatter\<close>, \<open>createValidationsFormatter\<close> and
  \<open>validationFormatters\<close>.  \<open>JSON.stringify\<close> is the language's own and is the
  parameter \<open>stringify\<close>; it gives a string, or \<open>undefined\<close> (\<open>None\<close>).  A
  \<open>ValidationFormat\<close> is a name and the values; the formatter gives \<open>null\<close>
  (\<open>None\<close>) for no values.
\<close>

definition createStringFormatter :: "(jsval \<Rightarrow> string option) \<Rightarrow> bool \<Rightarrow> jsval \<Rightarrow> string option" where
  "createStringFormatter stringify nowrap value =
     (case value of
        JStr s \<Rightarrow> if nowrap then Some s else stringify value
      | _ \<Rightarrow> stringify value)"

definition createValidationsFormatter ::
  "(jsval \<Rightarrow> string option) \<Rightarrow> string \<Rightarrow> bool \<Rightarrow> bool \<Rightarrow> jsval \<Rightarrow> (string \<times> string option list) option" where
  "createValidationsFormatter stringify name exact nowrap value =
     (let values = (case value of JArr xs \<Rightarrow> xs | _ \<Rightarrow> [value])
      in if values \<noteq> []
         then Some (if exact then name
                    else if length values > 1 then name @ '' values'' else name @ '' value'',
                    map (createStringFormatter stringify nowrap) values)
         else None)"

definition validationFormatters ::
  "(jsval \<Rightarrow> string option) \<Rightarrow> string \<Rightarrow> (jsval \<Rightarrow> (string \<times> string option list) option) option" where
  "validationFormatters stringify key =
     (if key = ''enum'' then Some (createValidationsFormatter stringify ''Allowed'' False False)
      else if key = ''examples'' then Some (createValidationsFormatter stringify ''Example'' False False)
      else if key = ''multipleOf'' then Some (createValidationsFormatter stringify ''Multiple of'' True False)
      else if key = ''pattern'' then Some (createValidationsFormatter stringify ''Match pattern'' True True)
      else if key = ''default'' then Some (createValidationsFormatter stringify ''Default'' False False)
      else None)"

text \<open>
  What a component returns.  \<open>Value\<close> is the badge \<open><Value key name className />\<close>
  of \<open>NumberValidations\<close>, whose key is an index; \<open>TextValue\<close> is the badge of the
  other two blocks, whose key is a text (a value that \<open>JSON.stringify\<close> gave as
  \<open>undefined\<close> is \<open>None\<close>).
  \<open>Validations\<close> returns a fragment of three child elements, each with the bucket it is
  given as its \<open>validations\<close> property (\<open>props_validations\<close> below).
\<close>

datatype value_el = Value nat string string

datatype text_value_el = TextValue "string option" "string option" string

datatype validations_child =
    NumberValidations_el dict
  | KeyValueValidations_el dict
  | NameValidations_el dict

text \<open>
  \<open>hideExamples\<close> is an optional property: \<open>None\<close> when it is not passed.  The
  predicate handed to \<open>pickBy\<close> converts every value with \<open>String\<close>.
\<close>

definition Validations :: "(rat \<Rightarrow> string) \<Rightarrow> dict \<Rightarrow> bool option \<Rightarrow> exn + validations_child list" where
  "Validations ns props_validations hideExamples =
     (let numberValidations = pick props_validations numberValidationNames
      in case pickBy props_validations
                (\<lambda>v. case ToString ns v of
                        Inl e \<Rightarrow> Inl e
                      | Inr s \<Rightarrow> Inr (s \<in> set [''true'', ''false''])) of
           Inl e \<Rightarrow> Inl e
         | Inr picked \<Rightarrow>
             (let booleanValidations = omit picked excludedValidations;
                  keyValueValidations =
                    omit props_validations
                      (keys numberValidations @ keys booleanValidations @ excludedValidations
                       @ (if hideExamples = Some True then exampleValidationNames else []))
              in Inr [NumberValidations_el numberValidations,
                      KeyValueValidations_el keyValueValidations,
                      NameValidations_el booleanValidations]))"

text \<open>
  \<open>NumberValidations\<close> returns \<open>null\<close> (\<open>None\<close>) for no entries, and otherwise a
  \<open>div\<close> (its class name and children).  Calling a formatter that is not registered
  is a \<open>TypeError\<close>.
\<close>

definition NumberValidations :: "(rat \<Rightarrow> string) \<Rightarrow> dict \<Rightarrow> exn + (string \<times> value_el list) option" where
  "NumberValidations ns props_validations =
     (let entries = props_validations
      in if entries = [] then Inr None
         else (case sequence_exn
                      (map (\<lambda>(key, value).
                              case numberValidationFormatters ns key of
                                None \<Rightarrow> Inl (TypeError ''numberValidationFormatters[key] is not a function'')
                              | Some f \<Rightarrow> f value)
                           entries) of
                 Inl e \<Rightarrow> Inl e
               | Inr names \<Rightarrow>
                   Inr (Some (''sl-flex sl-my-2 sl-text-muted'',
                              map (\<lambda>(i, value). Value i value ''sl-mr-2'') (enumerate 0 names)))))"

text \<open>
  \<open>KeyValueValidation\<close> is a \<open>div\<close> with the capitalized name and one badge per
  distinct value; lodash \<open>capitalize\<close> is the parameter \<open>capitalize\<close>.
  \<open>KeyValueValidations\<close> returns, for every key with a registered formatter, such a
  \<open>div\<close> (with its key) or \<open>null\<close>.
\<close>

definition KeyValueValidation :: "(string \<Rightarrow> string) \<Rightarrow> string \<Rightarrow> string option list \<Rightarrow> string \<times> text_value_el list" where
  "KeyValueValidation capitalize name values =
     (capitalize name, map (\<lambda>value. TextValue value value ''sl-ml-2'') (uniq values))"

definition KeyValueValidations ::
  "(jsval \<Rightarrow> string option) \<Rightarrow> (string \<Rightarrow> string) \<Rightarrow> dict \<Rightarrow> (string \<times> string \<times> text_value_el list) option list" where
  "KeyValueValidations stringify capitalize props_validations =
     map (\<lambda>key. case validationFormatters stringify key of
                   None \<Rightarrow> None
                 | Some f \<Rightarrow>
                     (case f (dict_index props_validations key) of
                        None \<Rightarrow> None
                      | Some (name, values) \<Rightarrow> Some (key, KeyValueValidation capitalize name values)))
         (filter (\<lambda>key. validationFormatters stringify key \<noteq> None) (keys props_validations))"

text \<open>
  \<open>NameValidations\<close> returns \<open>null\<close> for no keys, and otherwise a \<open>div\<close> with one
  badge per key whose value is truthy.
\<close>

definition NameValidations :: "dict \<Rightarrow> (string \<times> text_value_el list) option" where
  "NameValidations props_validations =
     (if keys props_validations \<noteq> []
      then Some (''sl-flex sl-flex-wrap sl-my-2'',
                 map (\<lambda>key. TextValue (Some key) (Some key) ''sl-mr-2 sl-text-muted sl-capitalize'')
                     (filter (\<lambda>key. truthy (dict_index props_validations key)) (keys props_validations)))
      else None)"

text \<open>
  Rendering \<open>Validations\<close> renders the three children it returns, in order.
\<close>

datatype validations_block =
    NumberValidations_block "(string \<times> value_el list) option"
  | KeyValueValidations_block "(string \<times> string \<times> text_value_el list) option list"
  | NameValidations_block "(string \<times> text_value_el list) option"

fun render_child ::
  "(rat \<Rightarrow> string) \<Rightarrow> (jsval \<Rightarrow> string option) \<Rightarrow> (string \<Rightarrow> string) \<Rightarrow> validations_child
     \<Rightarrow> exn + validations_block" where
  "render_child ns stringify capitalize (NumberValidations_el d) =
     (case NumberValidations ns d of Inl e \<Rightarrow> Inl e | Inr r \<Rightarrow> Inr (NumberValidations_block r))"
| "render_child ns stringify capitalize (KeyValueValidations_el d) =
     Inr (KeyValueValidations_block (KeyValueValidations stringify capitalize d))"
| "render_child ns stringify capitalize (NameValidations_el d) =
     Inr (NameValidations_block (NameValidations d))"

definition render_Validations ::
  "(rat \<Rightarrow> string) \<Rightarrow> (jsval \<Rightarrow> string option) \<Rightarrow> (string \<Rightarrow> string) \<Rightarrow> dict \<Rightarrow> bool option
     \<Rightarrow> exn + validations_block list" where
  "render_Validations ns stringify capitalize props_validations hideExamples =
     (case Validations ns props_validations hideExamples of
        Inl e \<Rightarrow> Inl e
      | Inr cs \<Rightarrow> sequence_exn (map (render_child ns stringify capitalize) cs))"

section \<open>Tree nodes, their metadata and the helpers of the tree library\<close>

text \<open>
  A \<open>JSONSchema4\<close> fragment is an object; \<open>ref\<close> is its identity (two fragments
  are the same object iff their \<open>ref\<close> is the same), \<open>schema_fields\<close> its entries.
  A function may hand back a fragment, an array of fragments or \<open>null\<close>.
\<close>

datatype JSONSchema4 = Schema (ref: nat) (schema_fields: dict)

datatype schema_result = NullSchema | SingleSchema JSONSchema4 | SchemaArray "JSONSchema4 list"

text \<open>
  A schema node as the row reads it: \<open>sn_annotations\<close>, \<open>sn_validations\<close> and
  \<open>sn_combiner\<close> are \<open>None\<close> when the node has no property \<open>annotations\<close>,
  \<open>validations\<close>, \<open>combiner\<close>; \<open>sn_items\<close> is its \<open>items\<close>.
\<close>

record SchemaNode =
  sn_annotations :: "dict option"
  sn_validations :: "dict option"
  sn_combiner :: "string option"
  sn_items :: schema_result

text \<open>
  The metadata attached to a tree node is either \<open>{path, schemaNode, schema}\<close> or an
  error placeholder \<open>{error}\<close>.  A path segment is a string or a number.
\<close>

record ITreeNodeMetaSchema =
  path :: "jsval list"
  schemaNode :: SchemaNode
  schema :: JSONSchema4

datatype TreeNodeMeta = MetaSchema ITreeNodeMetaSchema | MetaError string

text \<open>
  A tree-list node: its \<open>id\<close>, its \<open>parent\<close> (\<open>None\<close> for \<open>null\<close>), the ids
  of its \<open>children\<close> (\<open>None\<close> when the node has no property \<open>children\<close>), and its
  \<open>metadata\<close> property: absent, or an object whose \<open>properties\<close> is an array of
  schema fragments or is missing (\<open>None\<close>).  The identity of a node is its id.
\<close>

datatype node_metadata = MetadataUndefined | MetadataObject "JSONSchema4 list option"

datatype tnode =
  TreeListNode (node_id: string) (parent: "tnode option") (children: "string list option")
               (metadata: node_metadata)

text \<open>
  The helpers imported from \<open>../utils\<close> and from the tree-list library are not part
  of these files; they are parameters, and so are \<open>JSON.stringify\<close> and lodash
  \<open>capitalize\<close>, which the row needs to render its validations.
  \<open>getPrimaryType\<close> is applied to schema fragments and to schema nodes alike and may
  throw on either.
\<close>

record ext =
  getPrimaryType :: "JSONSchema4 \<Rightarrow> exn + jsval"
  getPrimaryType_node :: "SchemaNode \<Rightarrow> exn + jsval"
  isArrayNodeWithItems :: "SchemaNode \<Rightarrow> bool"
  isRefNode :: "SchemaNode \<Rightarrow> bool"
  hasRefItems :: "SchemaNode \<Rightarrow> bool"
  getLevel :: "tnode \<Rightarrow> int"
  addChildrenToTreeListNode :: "tnode \<Rightarrow> tnode"
  JSON_stringify :: "jsval \<Rightarrow> string option"
  lodash_capitalize :: "string \<Rightarrow> string"

text \<open>
  The metadata of a node is attached to it by a store keyed by the identity of the node;
  the choice state maps the id of a node to the branch index chosen for it.
\<close>

type_synonym metadataStore = "string \<Rightarrow> TreeNodeMeta option"

type_synonym ChoiceState = "string \<Rightarrow> int option"

text \<open>
  Modelled from the spec: \<open>getNodeMetadata\<close> of \<open>../tree/metadata\<close> is missing.
  It gives the metadata attached to the node (schema metadata or an error placeholder);
  looking up a node that has none fails.
\<close>

definition getNodeMetadata :: "metadataStore \<Rightarrow> tnode \<Rightarrow> exn + TreeNodeMeta" where
  "getNodeMetadata store node =
     (case store (node_id node) of
        None \<Rightarrow> Inl (Error ''Missing metadata'')
      | Some m \<Rightarrow> Inr m)"

text \<open>
  Modelled from the spec: \<open>getSchemaNodeMetadata\<close> of \<open>../tree/metadata\<close> is
  missing.  It gives the schema metadata of the node, and fails where the lookup fails
  or an error placeholder is attached.
\<close>

definition getSchemaNodeMetadata :: "metadataStore \<Rightarrow> tnode \<Rightarrow> exn + ITreeNodeMetaSchema" where
  "getSchemaNodeMetadata store node =
     (case getNodeMetadata store node of
        Inl e \<Rightarrow> Inl e
      | Inr (MetaError _) \<Rightarrow> Inl (TypeError ''Schema node expected'')
      | Inr (MetaSchema m) \<Rightarrow> Inr m)"

text \<open>
  Modelled from the spec: \<open>getChoiceForNode\<close> of the choice state in \<open>../tree\<close> is
  missing.  It gives the branch index chosen for the node id, \<open>0\<close> when none was set.
\<close>

definition getChoiceForNode :: "ChoiceState \<Rightarrow> string \<Rightarrow> int" where
  "getChoiceForNode state i = (case state i of None \<Rightarrow> 0 | Some c \<Rightarrow> c)"

section \<open>SchemaTree.tsx: the node-click listener\<close>

text \<open>The calls the listener makes on the tree store, in order.\<close>

datatype treeStore_call = ToggleExpand tnode

definition NodeClick_listener :: "tnode \<Rightarrow> treeStore_call list" where
  "NodeClick_listener node = (if children node \<noteq> None then [ToggleExpand node] else [])"

text \<open>
  Performing calls on a tree store whose \<open>toggleExpand\<close> is the given state change
  (the store is the tree-list library's).
\<close>

fun perform :: "('st \<Rightarrow> tnode \<Rightarrow> 'st) \<Rightarrow> 'st \<Rightarrow> treeStore_call list \<Rightarrow> 'st" where
  "perform toggleExpand st [] = st"
| "perform toggleExpand st (ToggleExpand node # cs) = perform toggleExpand (toggleExpand st node) cs"

section \<open>SchemaRow.tsx\<close>

definition ICON_SIZE :: int where "ICON_SIZE = 12"
definition ICON_DIMENSION :: int where "ICON_DIMENSION = 20"
definition ROW_OFFSET :: int where "ROW_OFFSET = 7"

definition getRelevantSchemaForRequireCheck :: "ext \<Rightarrow> metadataStore \<Rightarrow> tnode \<Rightarrow> exn + schema_result" where
  "getRelevantSchemaForRequireCheck x store treeNode =
     (case getNodeMetadata store treeNode of
        Inl e \<Rightarrow> Inl e
      | Inr (MetaError _) \<Rightarrow> Inr NullSchema
      | Inr (MetaSchema m) \<Rightarrow>
          if isArrayNodeWithItems x (schemaNode m) then Inr (sn_items (schemaNode m))
          else Inr (SingleSchema (schema m)))"

text \<open>
  The body of the \<open>try\<close> block of \<open>isRequired\<close>, for a node whose parent is
  \<open>p\<close>.  \<open>SchemaKind.Object\<close> (of \<open>../types\<close>) is the string \<open>object\<close>, and
  \<open>SchemaKind.Array\<close> below the string \<open>array\<close>.
\<close>

definition isRequired_try :: "(rat \<Rightarrow> string) \<Rightarrow> ext \<Rightarrow> metadataStore \<Rightarrow> tnode \<Rightarrow> tnode \<Rightarrow> exn + bool" where
  "isRequired_try ns x store treeNode p =
     (case getSchemaNodeMetadata store treeNode of
        Inl e \<Rightarrow> Inl e
      | Inr m \<Rightarrow>
          if path m = [] then Inr False
          else (case getRelevantSchemaForRequireCheck x store p of
                  Inl e \<Rightarrow> Inl e
                | Inr NullSchema \<Rightarrow> Inr False
                | Inr (SchemaArray _) \<Rightarrow> Inr False
                | Inr (SingleSchema s) \<Rightarrow>
                    (case getPrimaryType x s of
                       Inl e \<Rightarrow> Inl e
                     | Inr t \<Rightarrow>
                         if t \<noteq> JStr ''object'' then Inr False
                         else (case dict_index (schema_fields s) ''required'' of
                                 JArr required \<Rightarrow>
                                   (case ToString ns (last (path m)) of
                                      Inl e \<Rightarrow> Inl e
                                    | Inr segment \<Rightarrow> Inr (JStr segment \<in> set required))
                               | _ \<Rightarrow> Inr False))))"

definition isRequired :: "(rat \<Rightarrow> string) \<Rightarrow> ext \<Rightarrow> metadataStore \<Rightarrow> tnode \<Rightarrow> bool" where
  "isRequired ns x store treeNode =
     (case parent treeNode of
        None \<Rightarrow> False
      | Some p \<Rightarrow> (case isRequired_try ns x store treeNode p of Inl _ \<Rightarrow> False | Inr b \<Rightarrow> b))"

definition getCombinerOptions :: "tnode \<Rightarrow> JSONSchema4 list option" where
  "getCombinerOptions node =
     (case metadata node of
        MetadataObject properties \<Rightarrow> properties
      | MetadataUndefined \<Rightarrow> Some [])"

text \<open>
  \<open>items.indexOf(item)\<close>: the first position holding the same object, \<open>-1\<close> if there
  is none.  \<open>items[i]\<close> is \<open>undefined\<close> (\<open>None\<close>) outside the array.
\<close>

fun indexOf :: "JSONSchema4 list \<Rightarrow> JSONSchema4 \<Rightarrow> int" where
  "indexOf [] item = - 1"
| "indexOf (y # ys) item =
     (if ref y = ref item then 0
      else (let i = indexOf ys item in if i < 0 then - 1 else i + 1))"

definition array_index :: "'a list \<Rightarrow> int \<Rightarrow> 'a option" where
  "array_index xs i = (if 0 \<le> i \<and> i < int (length xs) then Some (xs ! nat i) else None)"

text \<open>
  The \<open>onItemSelect\<close> handler of the branch selector of a row: the calls it makes, in
  order; \<open>meta\<close> is the row's schema metadata, whose path the handler extends.
  The event \<open>e\<close> may be missing.  Reading \<open>indexOf\<close> of an \<open>items\<close> that is
  \<open>undefined\<close> is a \<open>TypeError\<close>.
\<close>

datatype row_call =
    PreventDefault
  | SetChoiceForNode string int
  | PopulateCombiner tnode JSONSchema4 "jsval list" bool

definition onItemSelect :: "ext \<Rightarrow> tnode \<Rightarrow> ITreeNodeMetaSchema \<Rightarrow> JSONSchema4 \<Rightarrow> bool \<Rightarrow> exn + row_call list" where
  "onItemSelect x node meta item e =
     (case getCombinerOptions node of
        None \<Rightarrow> Inl (TypeError ''Cannot read properties of undefined (reading indexOf)'')
      | Some items \<Rightarrow>
          (let index = indexOf items item
           in Inr ((if e then [PreventDefault] else [])
                   @ [SetChoiceForNode (node_id node) index,
                      PopulateCombiner (addChildrenToTreeListNode x node) item
                        (path meta @ [JNum (of_int index)]) False])))"

text \<open>
  What \<open>SchemaPropertyRow\<close> returns: the caret (if shown) with its \<open>isExpanded\<close> and
  its style (\<open>position: relative\<close>, or the \<open>left\<close> offset), the kind of the
  divider (if shown), the node of \<open>Property\<close>, the branch selector (if shown) with its
  items and the text of its button, the description (if shown), the \<open>required\<close>
  property handed to \<open>Validations\<close>, and the blocks \<open>Validations\<close> renders for the
  \<open>validations\<close> it is handed.  \<open>Property\<close>, \<open>Caret\<close>, \<open>Divider\<close>,
  \<open>Description\<close> and the selector are not part of these files: the row holds what
  they are handed.
\<close>

datatype caret_style = PositionRelative | Left rat

record property_row =
  row_caret :: "(bool \<times> caret_style) option"
  row_divider :: "string option"
  row_property :: string
  row_select :: "(JSONSchema4 list \<times> jsval) option"
  row_description :: "jsval option"
  row_required :: bool
  row_validations :: "validations_block list"

definition parentSchemaNode_of :: "ext \<Rightarrow> metadataStore \<Rightarrow> tnode \<Rightarrow> exn + SchemaNode option" where
  "parentSchemaNode_of x store node =
     (case parent node of
        None \<Rightarrow> Inr None
      | Some p \<Rightarrow>
          if getLevel x p \<ge> 0
          then (case getSchemaNodeMetadata store p of Inl e \<Rightarrow> Inl e | Inr m \<Rightarrow> Inr (Some (schemaNode m)))
          else Inr None)"

definition has_Ref :: "ext \<Rightarrow> SchemaNode \<Rightarrow> exn + bool" where
  "has_Ref x sn =
     (if isRefNode x sn then Inr True
      else (case getPrimaryType_node x sn of
              Inl e \<Rightarrow> Inl e
            | Inr t \<Rightarrow> Inr (t = JStr ''array'' \<and> hasRefItems x sn)))"

definition divider_of :: "tnode \<Rightarrow> SchemaNode option \<Rightarrow> exn + string option" where
  "divider_of node parentSchemaNode =
     (case parent node of
        None \<Rightarrow> Inr None
      | Some p \<Rightarrow>
          (case children p of
             None \<Rightarrow> Inl (TypeError ''Cannot read properties of undefined (reading length)'')
           | Some cs \<Rightarrow>
               if length cs > 0 then
                 (case parentSchemaNode of
                    None \<Rightarrow> Inr None
                  | Some psn \<Rightarrow>
                      (case sn_combiner psn of
                         None \<Rightarrow> Inr None
                       | Some kind \<Rightarrow> if cs ! 0 \<noteq> node_id node then Inr (Some kind) else Inr None))
               else Inr None))"

definition select_of :: "tnode \<Rightarrow> JSONSchema4 list option \<Rightarrow> int \<Rightarrow> exn + (JSONSchema4 list \<times> jsval) option" where
  "select_of node items chosenPropertyIndex =
     (case metadata node of
        MetadataUndefined \<Rightarrow> Inr None
      | MetadataObject _ \<Rightarrow>
          (case items of
             None \<Rightarrow> Inl (TypeError ''Cannot read properties of undefined'')
           | Some its \<Rightarrow>
               (case array_index its chosenPropertyIndex of
                  None \<Rightarrow> Inl (TypeError ''Cannot read properties of undefined (reading type)'')
                | Some item \<Rightarrow> Inr (Some (its, dict_index (schema_fields item) ''type'')))))"

text \<open>
  The object the row hands to \<open>Validations\<close> as \<open>validations\<close>: the default of the
  annotations, if truthy, and the validations of the schema node.
\<close>

definition validations_props :: "SchemaNode \<Rightarrow> dict" where
  "validations_props sn =
     spread
       (case sn_annotations sn of
          Some a \<Rightarrow>
            if truthy (dict_index a ''default'') then [(''default'', dict_index a ''default'')]
            else []
        | None \<Rightarrow> [])
       (case sn_validations sn of Some v \<Rightarrow> v | None \<Rightarrow> [])"

definition SchemaPropertyRow ::
  "(rat \<Rightarrow> string) \<Rightarrow> ext \<Rightarrow> metadataStore \<Rightarrow> ChoiceState \<Rightarrow> tnode \<Rightarrow> bool option \<Rightarrow> exn + property_row" where
  "SchemaPropertyRow ns x store state node isExpanded =
     (case getSchemaNodeMetadata store node of
        Inl e \<Rightarrow> Inl e
      | Inr meta \<Rightarrow>
     (case parentSchemaNode_of x store node of
        Inl e \<Rightarrow> Inl e
      | Inr parentSchemaNode \<Rightarrow>
     (let sn = schemaNode meta;
          description = (case sn_annotations sn of
                           Some a \<Rightarrow> dict_index a ''description''
                         | None \<Rightarrow> JNull)
      in
     (case has_Ref x sn of
        Inl e \<Rightarrow> Inl e
      | Inr hasRef \<Rightarrow>
     (let chosenPropertyIndex = getChoiceForNode state (node_id node);
          items = getCombinerOptions node;
          caret =
            (if hasRef \<or> (children node \<noteq> None \<and> getLevel x node > 0)
             then Some (isExpanded = Some True,
                        if hasRef \<and> getLevel x node = 0 then PositionRelative
                        else Left (of_int ICON_DIMENSION * (- 1) + of_int ROW_OFFSET / (- 2)))
             else None)
      in
     (case divider_of node parentSchemaNode of
        Inl e \<Rightarrow> Inl e
      | Inr divider \<Rightarrow>
     (case select_of node items chosenPropertyIndex of
        Inl e \<Rightarrow> Inl e
      | Inr sel \<Rightarrow>
     (case render_Validations ns (JSON_stringify x) (lodash_capitalize x) (validations_props sn) None of
        Inl e \<Rightarrow> Inl e
      | Inr blocks \<Rightarrow>
          Inr \<lparr>row_caret = caret,
               row_divider = divider,
               row_property = node_id node,
               row_select = sel,
               row_description = (if truthy description then Some description else None),
               row_required = isRequired ns x store node,
               row_validations = blocks\<rparr>))))))))"

text \<open>
  \<open>SchemaErrorRow\<close> is a \<open>span\<close> with its class and the message.  \<open>SchemaRow\<close>
  wraps the row in the \<open>div\<close>s that carry \<open>className\<close> and the left margin; rendering
  it renders the \<open>SchemaPropertyRow\<close> or \<open>SchemaErrorRow\<close> inside.
\<close>

datatype span_el = Span string string

definition SchemaErrorRow :: "string \<Rightarrow> span_el" where
  "SchemaErrorRow message = Span ''text-red-5 dark:text-red-4'' message"

datatype row_content = PropertyRow property_row | ErrorRow span_el

datatype row_el = Row "string option" int row_content

definition SchemaRow ::
  "(rat \<Rightarrow> string) \<Rightarrow> ext \<Rightarrow> metadataStore \<Rightarrow> ChoiceState \<Rightarrow> string option \<Rightarrow> tnode \<Rightarrow> bool option \<Rightarrow> exn + row_el" where
  "SchemaRow ns x store state className node isExpanded =
     (case getNodeMetadata store node of
        Inl e \<Rightarrow> Inl e
      | Inr (MetaSchema _) \<Rightarrow>
          (case SchemaPropertyRow ns x store state node isExpanded of
             Inl e \<Rightarrow> Inl e
           | Inr r \<Rightarrow> Inr (Row className (ICON_DIMENSION * getLevel x node) (PropertyRow r)))
      | Inr (MetaError error) \<Rightarrow>
          Inr (Row className (ICON_DIMENSION * getLevel x node) (ErrorRow (SchemaErrorRow error))))"

section \<open>Concrete inputs\<close>

text \<open>
  \<open>Number::toString\<close> on the integers of magnitude below \<open>10 ** 21\<close>, where it is
  the plain decimal notation.  The concrete inputs below pass it for \<open>ns\<close>, and use it
  on such integers only.
\<close>

fun nat_digits :: "nat \<Rightarrow> string" where
  "nat_digits n =
     (if n < 10 then [''0123456789'' ! n]
      else nat_digits (n div 10) @ [''0123456789'' ! (n mod 10)])"

declare nat_digits.simps [simp del]

definition Number_toString_int :: "rat \<Rightarrow> string" where
  "Number_toString_int r =
     (if r < 0 then ''-'' @ nat_digits (nat \<lfloor>- r\<rfloor>) else nat_digits (nat \<lfloor>r\<rfloor>))"

text \<open>
  Stand-ins for the helpers, for the concrete inputs: the primary type of a fragment is
  its \<open>type\<close>, a schema node is an array node with items when it has items, no node
  is a reference, the level of a node is the number of its ancestors less one, and
  \<open>addChildrenToTreeListNode\<close> gives a childless node an empty list of children.
  \<open>JSON.stringify\<close> is written out for values whose numbers are such integers and
  whose strings and keys need no escape; \<open>capitalize\<close> is the identity, which it is
  on the names the formatters give (\<open>Allowed values\<close>, \<open>Default value\<close>, ...).
\<close>

fun JSON_stringify_plain :: "jsval \<Rightarrow> string option" where
  "JSON_stringify_plain JUndefined = None"
| "JSON_stringify_plain JNull = Some ''null''"
| "JSON_stringify_plain (JBool b) = Some (if b then ''true'' else ''false'')"
| "JSON_stringify_plain (JNum r) = Some (Number_toString_int r)"
| "JSON_stringify_plain (JStr t) = Some ([CHR 0x22] @ t @ [CHR 0x22])"
| "JSON_stringify_plain (JArr xs) =
     Some (''['' @ join_comma (map (\<lambda>v. case JSON_stringify_plain v of None \<Rightarrow> ''null'' | Some s \<Rightarrow> s) xs)
           @ '']'')"
| "JSON_stringify_plain (JObj d) =
     Some (''{'' @ join_comma (concat (map (\<lambda>e. case JSON_stringify_plain (snd e) of
                                                    None \<Rightarrow> []
                                                  | Some s \<Rightarrow> [CHR 0x22 # fst e @ [CHR 0x22] @ '':'' @ s]) d))
           @ ''}'')"

fun level_of :: "tnode \<Rightarrow> int" where
  "level_of (TreeListNode i p c m) = (case p of None \<Rightarrow> - 1 | Some q \<Rightarrow> level_of q + 1)"

definition sample_ext :: ext where
  "sample_ext =
     \<lparr>getPrimaryType = (\<lambda>s. Inr (dict_index (schema_fields s) ''type'')),
      getPrimaryType_node = (\<lambda>sn. Inr (case sn_items sn of NullSchema \<Rightarrow> JStr ''object'' | _ \<Rightarrow> JStr ''array'')),
      isArrayNodeWithItems = (\<lambda>sn. sn_items sn \<noteq> NullSchema),
      isRefNode = (\<lambda>sn. False),
      hasRefItems = (\<lambda>sn. False),
      getLevel = level_of,
      addChildrenToTreeListNode =
        (\<lambda>n. TreeListNode (node_id n) (parent n)
                (Some (case children n of None \<Rightarrow> [] | Some cs \<Rightarrow> cs)) (metadata n)),
      JSON_stringify = JSON_stringify_plain,
      lodash_capitalize = (\<lambda>t. t)\<rparr>"

text \<open>
  The tree of the object schema
  \<open>{type: "object", required: ["id"], properties: {id: {type: "string"}, name: {type: "string"}}}\<close>,
  with further children: one that carries an error placeholder, an array node (below),
  combiner nodes with the branches \<open>string_schema\<close> and \<open>number_schema\<close>, with
  no branch, and (below) with one branch twice, and a property \<open>age\<close> that has a
  description, a default and validations.
\<close>

definition string_schema :: JSONSchema4 where
  "string_schema = Schema 2 [(''type'', JStr ''string'')]"

definition number_schema :: JSONSchema4 where
  "number_schema = Schema 3 [(''type'', JStr ''number'')]"

definition object_schema :: JSONSchema4 where
  "object_schema =
     Schema 1 [(''type'', JStr ''object''), (''required'', JArr [JStr ''id'']),
               (''properties'', JObj [(''id'', JObj [(''type'', JStr ''string'')]),
                                      (''name'', JObj [(''type'', JStr ''string'')])])]"

definition plain_schemaNode :: SchemaNode where
  "plain_schemaNode =
     \<lparr>sn_annotations = Some [], sn_validations = Some [], sn_combiner = None, sn_items = NullSchema\<rparr>"

definition root_node :: tnode where
  "root_node = TreeListNode ''root'' None (Some [''obj'']) MetadataUndefined"

definition object_node :: tnode where
  "object_node =
     TreeListNode ''obj'' (Some root_node) (Some [''id'', ''name'', ''bad'', ''choice'', ''empty'', ''list'', ''twin'', ''age''])
       MetadataUndefined"

definition id_node :: tnode where
  "id_node = TreeListNode ''id'' (Some object_node) None MetadataUndefined"

definition name_node :: tnode where
  "name_node = TreeListNode ''name'' (Some object_node) None MetadataUndefined"

definition error_node :: tnode where
  "error_node = TreeListNode ''bad'' (Some object_node) None MetadataUndefined"

definition choice_node :: tnode where
  "choice_node =
     TreeListNode ''choice'' (Some object_node) (Some [])
       (MetadataObject (Some [string_schema, number_schema]))"

definition empty_choice_node :: tnode where
  "empty_choice_node =
     TreeListNode ''empty'' (Some object_node) (Some []) (MetadataObject (Some []))"

text \<open>An array of such objects, \<open>{type: "array", items: ...}\<close>, and the \<open>id\<close> of its items.\<close>

definition list_schema :: JSONSchema4 where
  "list_schema = Schema 6 [(''type'', JStr ''array'')]"

definition list_node :: tnode where
  "list_node = TreeListNode ''list'' (Some object_node) (Some [''entry'']) MetadataUndefined"

definition entry_node :: tnode where
  "entry_node = TreeListNode ''entry'' (Some list_node) None MetadataUndefined"

text \<open>
  The property \<open>age\<close>, of the schema
  \<open>{type: "integer", description: "Age in years", default: 18, minimum: 0, maximum: 150,
  multipleOf: 1, deprecated: true}\<close>.
\<close>

definition age_schema :: JSONSchema4 where
  "age_schema =
     Schema 7 [(''type'', JStr ''integer''), (''description'', JStr ''Age in years''),
               (''default'', JNum 18), (''minimum'', JNum 0), (''maximum'', JNum 150),
               (''multipleOf'', JNum 1), (''deprecated'', JBool True)]"

definition age_schemaNode :: SchemaNode where
  "age_schemaNode =
     \<lparr>sn_annotations = Some [(''description'', JStr ''Age in years''), (''default'', JNum 18)],
      sn_validations = Some [(''minimum'', JNum 0), (''maximum'', JNum 150), (''multipleOf'', JNum 1),
                             (''deprecated'', JBool True)],
      sn_combiner = None, sn_items = NullSchema\<rparr>"

definition age_node :: tnode where
  "age_node = TreeListNode ''age'' (Some object_node) None MetadataUndefined"

definition choice_meta :: ITreeNodeMetaSchema where
  "choice_meta =
     \<lparr>path = [JStr ''properties'', JStr ''choice'', JStr ''oneOf''],
      schemaNode = plain_schemaNode\<lparr>sn_combiner := Some ''oneOf''\<rparr>,
      schema = Schema 4 [(''oneOf'', JArr [JObj [(''type'', JStr ''string'')],
                                          JObj [(''type'', JStr ''number'')]])]\<rparr>"

definition sample_store :: metadataStore where
  "sample_store =
     map_of
       [(''obj'', MetaSchema \<lparr>path = [], schemaNode = plain_schemaNode, schema = object_schema\<rparr>),
        (''id'', MetaSchema \<lparr>path = [JStr ''properties'', JStr ''id''],
                             schemaNode = plain_schemaNode, schema = string_schema\<rparr>),
        (''name'', MetaSchema \<lparr>path = [JStr ''properties'', JStr ''name''],
                               schemaNode = plain_schemaNode, schema = string_schema\<rparr>),
        (''bad'', MetaError ''Could not resolve the schema''),
        (''choice'', MetaSchema choice_meta),
        (''list'', MetaSchema \<lparr>path = [JStr ''properties'', JStr ''list''],
                               schemaNode = plain_schemaNode\<lparr>sn_items := SingleSchema object_schema\<rparr>,
                               schema = list_schema\<rparr>),
        (''entry'', MetaSchema \<lparr>path = [JStr ''properties'', JStr ''list'', JStr ''items'', JStr ''id''],
                                schemaNode = plain_schemaNode, schema = string_schema\<rparr>),
        (''empty'', MetaSchema \<lparr>path = [JStr ''properties'', JStr ''empty'', JStr ''oneOf''],
                                schemaNode = plain_schemaNode\<lparr>sn_combiner := Some ''oneOf''\<rparr>,
                                schema = Schema 5 [(''oneOf'', JArr [])]\<rparr>),
        (''age'', MetaSchema \<lparr>path = [JStr ''properties'', JStr ''age''],
                              schemaNode = age_schemaNode, schema = age_schema\<rparr>)]"

text \<open>A combiner node whose two branches are one and the same schema object.\<close>

definition twin_choice_node :: tnode where
  "twin_choice_node =
     TreeListNode ''twin'' (Some object_node) (Some [])
       (MetadataObject (Some [string_schema, string_schema]))"

text \<open>The helpers with a \<open>getPrimaryType\<close> that throws.\<close>

definition throwing_ext :: ext where
  "throwing_ext = sample_ext\<lparr>getPrimaryType := (\<lambda>s. Inl (TypeError ''Cannot read the type''))\<rparr>"

text \<open>Validation objects and schema nodes.\<close>

definition flags_validations :: dict where
  "flags_validations =
     [(''minimum'', JNum 1), (''enum'', JArr [JStr ''a'', JStr ''b'']), (''readOnly'', JBool True),
      (''uniqueItems'', JBool True), (''examples'', JArr [JStr ''a''])]"

definition all_bounds :: dict where
  "all_bounds =
     [(''maxLength'', JNum 10), (''minLength'', JNum 1), (''maxItems'', JNum 10), (''minItems'', JNum 1),
      (''exclusiveMaximum'', JNum 10), (''exclusiveMinimum'', JNum 1), (''maximum'', JNum 10),
      (''minimum'', JNum 1)]"

definition email_node :: RegularNode where
  "email_node = \<lparr>enum = None, format = Some ''email'', annotations = Some [],
                  validations = [(''minLength'', JNum 5)]\<rparr>"

definition min_max_node :: RegularNode where
  "min_max_node = \<lparr>enum = None, format = None, annotations = Some [],
                    validations = [(''minimum'', JNum 0), (''maximum'', JNum 10)]\<rparr>"

definition default_false_node :: RegularNode where
  "default_false_node = \<lparr>enum = None, format = None,
                          annotations = Some [(''default'', JBool False)], validations = []\<rparr>"

text \<open>A string node of format \<open>byte\<close> that declares the pattern the format implies.\<close>

definition byte_node :: RegularNode where
  "byte_node = \<lparr>enum = None, format = Some ''byte'', annotations = Some [],
     validations = [(''pattern'', JStr [CHR ''^'', CHR ''['', CHR 0x5C, CHR ''w'', CHR 0x5C, CHR ''d'',
                                      CHR ''+'', CHR 0x5C, CHR ''/'', CHR ''='', CHR '']'', CHR ''*'', CHR ''$'']),
                    (''minLength'', JNum 1)]\<rparr>"

section \<open>Lookups in the objects the extractor builds\<close>

lemma dict_get_set: "dict_get (dict_set d k v) k' = (if k' = k then Some v else dict_get d k')"
  by (induction d) (auto simp: dict_get_def)

lemma dict_get_Nil: "dict_get [] k = None"
  by (simp add: dict_get_def)

lemma dict_get_Cons: "dict_get ((k', v') # e) k = (if k = k' then Some v' else dict_get e k)"
  by (simp add: dict_get_def)

lemma dict_get_spread:
  "is_object e \<Longrightarrow>
   dict_get (spread d e) k = (case dict_get e k of Some v \<Rightarrow> Some v | None \<Rightarrow> dict_get d k)"
proof (induction e arbitrary: d)
  case Nil
  then show ?case by (simp add: dict_get_Nil)
next
  case (Cons a e)
  obtain k' v' where a: "a = (k', v')" by (cases a)
  from Cons.prems a have d: "is_object e" and nk: "k' \<notin> fst ` set e"
    by (auto simp: is_object_def)
  have none: "dict_get e k' = None"
    using nk by (simp add: dict_get_def map_of_eq_None_iff)
  show ?case
    using Cons.IH[OF d, of "dict_set d k' v'"] none
    by (auto simp: a dict_get_set dict_get_Cons split: option.splits)
qed

lemma dict_get_delete: "dict_get (dict_delete d k) k' = (if k' = k then None else dict_get d k')"
  by (induction d) (auto simp: dict_get_def dict_delete_def)

lemma is_object_delete: "is_object d \<Longrightarrow> is_object (dict_delete d k)"
  by (simp add: is_object_def dict_delete_def distinct_map_filter)

lemma is_object_filterLoop: "is_object nv \<Longrightarrow> is_object (filterLoop es nv)"
  by (induction es nv rule: filterLoop.induct) (auto simp: is_object_delete)

lemma dict_get_filterLoop:
  "distinct (map fst es) \<Longrightarrow>
   dict_get (filterLoop es nv) k =
     (case map_of es k of
        Some c \<Rightarrow> if strict_eq_prim c (dict_index nv k) then None else dict_get nv k
      | None \<Rightarrow> dict_get nv k)"
proof (induction es arbitrary: nv)
  case Nil
  then show ?case by simp
next
  case (Cons e es)
  obtain key val where e: "e = (key, val)" by (cases e)
  from Cons.prems e have d: "distinct (map fst es)" and nk: "key \<notin> fst ` set es" by auto
  have none: "map_of es key = None" using nk by (simp add: map_of_eq_None_iff)
  show ?case
    using Cons.IH[OF d] none
    by (auto simp: e dict_get_delete dict_index_def split: option.splits)
qed

lemma length_uniq: "length (uniq xs) = card (set xs)"
  by (simp add: uniq_def length_remdups_card_conv)

lemma set_keys_omit: "set (keys (omit d ks)) = set (keys d) - set ks"
  by (auto simp: keys_def omit_def)

lemma distinct_oas: "distinct (map fst (oasFormats_entries f))"
  by (simp add: oasFormats_entries_def oasFormats_def)

lemma dict_get_filterOut:
  "dict_get (filterOutOasFormatValidations f vals) k =
     (case dict_get (oasFormats_entries f) k of
        Some c \<Rightarrow> if strict_eq_prim c (dict_index vals k) then None else dict_get vals k
      | None \<Rightarrow> dict_get vals k)"
proof (cases "in_oasFormats f")
  case True
  then show ?thesis
    by (simp add: filterOutOasFormatValidations_def dict_get_filterLoop[OF distinct_oas])
       (simp add: dict_get_def)
next
  case False
  then have "map_of oasFormats f = None"
    by (simp add: in_oasFormats_def map_of_eq_None_iff)
  then show ?thesis using False
    by (simp add: filterOutOasFormatValidations_def oasFormats_entries_def dict_get_Nil)
qed

lemma is_object_getFilteredValidations:
  "is_object (validations n) \<Longrightarrow> is_object (getFilteredValidations n)"
  by (auto simp: getFilteredValidations_def filterOutOasFormatValidations_def is_object_filterLoop
           split: option.splits)

lemma dict_get_getValidationsFromSchema_other:
  assumes "is_object (validations n)" and "k \<noteq> ''enum''" and "k \<noteq> ''default''" and "k \<noteq> ''examples''"
  shows "dict_get (getValidationsFromSchema n) k = dict_get (getFilteredValidations n) k"
  using assms(2-4)
  by (simp add: getValidationsFromSchema_def dict_get_spread[OF is_object_getFilteredValidations[OF assms(1)]]
        split: option.splits)
     (auto simp: dict_get_set dict_get_Cons dict_get_Nil split: option.splits)

lemma oas_entry_cases:
  assumes "dict_get (oasFormats_entries f) k = Some c"
  shows "(k = ''minimum'' \<or> k = ''maximum'' \<or> k = ''pattern'') \<and> ((\<exists>r. c = JNum r) \<or> (\<exists>s. c = JStr s))"
  using assms
  by (auto simp: oasFormats_entries_def oasFormats_def dict_get_Cons dict_get_Nil split: if_splits)

lemma strict_eq_prim_index:
  assumes "(\<exists>r. c = JNum r) \<or> (\<exists>s. c = JStr s)"
  shows "strict_eq_prim c (dict_index vals k) \<longleftrightarrow> dict_get vals k = Some c"
  using assms by (auto simp: dict_index_def split: option.splits)

lemma dict_get_getValidationsFromSchema_Some:
  assumes "is_object (validations n)" and "dict_get (getFilteredValidations n) k = Some v"
  shows "dict_get (getValidationsFromSchema n) k = Some v"
  using assms(2)
  by (simp add: getValidationsFromSchema_def
        dict_get_spread[OF is_object_getFilteredValidations[OF assms(1)]])

lemma oasFormats_names:
  "fst ` set oasFormats = {''int32'', ''int64'', ''float'', ''double'', ''byte''}"
  by (simp add: oasFormats_def)

section \<open>Buckets, formatters and counts\<close>

lemma dict_get_Some_iff: "is_object d \<Longrightarrow> dict_get d k = Some v \<longleftrightarrow> (k, v) \<in> set d"
  by (simp add: dict_get_def is_object_def)

lemma dict_get_in_set: "dict_get d k = Some v \<Longrightarrow> (k, v) \<in> set d"
  by (simp add: dict_get_def map_of_SomeD)

lemma set_pick_get: "(k, v) \<in> set (pick d ks) \<longleftrightarrow> k \<in> set ks \<and> dict_get d k = Some v"
  by (induction ks) (auto split: option.splits)

lemma set_pick:
  "is_object d \<Longrightarrow> (k, v) \<in> set (pick d ks) \<longleftrightarrow> k \<in> set ks \<and> (k, v) \<in> set d"
  by (simp add: set_pick_get dict_get_Some_iff)

lemma set_omit: "(k, v) \<in> set (omit d ks) \<longleftrightarrow> (k, v) \<in> set d \<and> k \<notin> set ks"
  by (auto simp: omit_def)

lemma set_keys: "k \<in> set (keys d) \<longleftrightarrow> (\<exists>v. (k, v) \<in> set d)"
  by (force simp: keys_def)

lemma is_object_unique: "is_object d \<Longrightarrow> (k, v) \<in> set d \<Longrightarrow> (k, w) \<in> set d \<Longrightarrow> v = w"
  by (auto simp: is_object_def dest: eq_key_imp_eq_value)

lemma pickBy_Inr:
  "(\<And>k v. (k, v) \<in> set d \<Longrightarrow> \<exists>b. p v = Inr b) \<Longrightarrow>
   pickBy d p = Inr (filter (\<lambda>e. p (snd e) = Inr True) d)"
proof (induction d)
  case Nil
  then show ?case by simp
next
  case (Cons a d)
  obtain k v where a: "a = (k, v)" by (cases a)
  from Cons.prems[of k v] a obtain b where b: "p v = Inr b" by auto
  have "\<exists>b. p v' = Inr b" if "(k', v') \<in> set d" for k' v'
    using Cons.prems[of k' v'] that by simp
  then have "pickBy d p = Inr (filter (\<lambda>e. p (snd e) = Inr True) d)"
    by (rule Cons.IH)
  then show ?case by (simp add: a b)
qed

lemma pickBy_Inr_D:
  "pickBy d p = Inr r \<Longrightarrow> (k, v) \<in> set d \<Longrightarrow> \<exists>b. p v = Inr b"
  by (induction d arbitrary: r) (auto split: sum.splits)

lemma pickBy_Inl:
  "(k, v) \<in> set d \<Longrightarrow> p v = Inl e \<Longrightarrow> \<exists>e'. pickBy d p = Inl e'"
  by (induction d) (auto split: sum.splits)

lemma sequence_exn_map_Inr:
  "(\<And>a. a \<in> set xs \<Longrightarrow> f a = Inr (g a)) \<Longrightarrow> sequence_exn (map f xs) = Inr (map g xs)"
  by (induction xs) auto

lemma formatter_defined:
  "k \<in> set numberValidationNames \<Longrightarrow> \<exists>f. numberValidationFormatters ns k = Some f"
  by (auto simp: numberValidationNames_def numberValidationFormatters_def)

lemma Validations_Inr_D:
  assumes "Validations ns vs hideExamples = Inr cs" and "(k, v) \<in> set vs"
  shows "\<exists>s. ToString ns v = Inr s"
proof -
  from assms(1) obtain picked where
    "pickBy vs (\<lambda>v. case ToString ns v of Inl e \<Rightarrow> Inl e | Inr s \<Rightarrow> Inr (s \<in> set [''true'', ''false''])) = Inr picked"
    by (auto simp: Validations_def Let_def split: sum.splits)
  from pickBy_Inr_D[OF this assms(2)] show ?thesis
    by (auto split: sum.splits)
qed

lemma Validations_sorted:
  assumes obj: "is_object vs"
    and str: "\<forall>k v. (k, v) \<in> set vs \<longrightarrow> (\<exists>s. ToString ns v = Inr s)"
  shows "\<exists>num kv bl.
      Validations ns vs hideExamples
        = Inr [NumberValidations_el num, KeyValueValidations_el kv, NameValidations_el bl]
    \<and> (\<forall>k v. (k, v) \<in> set num \<longleftrightarrow> (k, v) \<in> set vs \<and> k \<in> set numberValidationNames)
    \<and> (\<forall>k v. (k, v) \<in> set bl \<longleftrightarrow>
          (k, v) \<in> set vs \<and> (\<exists>s. ToString ns v = Inr s \<and> s \<in> set [''true'', ''false''])
          \<and> k \<notin> set excludedValidations)
    \<and> (\<forall>k v. (k, v) \<in> set kv \<longleftrightarrow>
          (k, v) \<in> set vs \<and> (k, v) \<notin> set num \<and> (k, v) \<notin> set bl
          \<and> k \<notin> set excludedValidations
          \<and> \<not> (hideExamples = Some True \<and> k \<in> set exampleValidationNames))
    \<and> (\<forall>k v. (k, v) \<in> set num \<and> (k, v) \<in> set bl \<longleftrightarrow>
          (k, v) \<in> set vs \<and> k \<in> set numberValidationNames \<and> k \<notin> set excludedValidations
          \<and> (\<exists>s. ToString ns v = Inr s \<and> s \<in> set [''true'', ''false'']))"
proof -
  define p where "p = (\<lambda>v. case ToString ns v of Inl e \<Rightarrow> Inl e
                            | Inr s \<Rightarrow> (Inr (s \<in> set [''true'', ''false'']) :: exn + bool))"
  define picked where "picked = filter (\<lambda>e. p (snd e) = Inr True) vs"
  define num where "num = pick vs numberValidationNames"
  define bl where "bl = omit picked excludedValidations"
  define kv where "kv = omit vs (keys num @ keys bl @ excludedValidations
               @ (if hideExamples = Some True then exampleValidationNames else []))"
  have pb: "\<exists>b. p v = Inr b" if "(k, v) \<in> set vs" for k v
  proof -
    from str that obtain s where "ToString ns v = Inr s" by blast
    then show ?thesis by (simp add: p_def)
  qed
  have pk: "pickBy vs p = Inr picked"
    unfolding picked_def by (rule pickBy_Inr) (rule pb)
  have pT: "p v = Inr True \<longleftrightarrow> (\<exists>s. ToString ns v = Inr s \<and> s \<in> set [''true'', ''false''])" for v
    by (auto simp: p_def split: sum.splits)
  have V: "Validations ns vs hideExamples
        = Inr [NumberValidations_el num, KeyValueValidations_el kv, NameValidations_el bl]"
    using pk by (simp add: Validations_def Let_def num_def bl_def kv_def p_def)
  have N: "(k, v) \<in> set num \<longleftrightarrow> (k, v) \<in> set vs \<and> k \<in> set numberValidationNames" for k v
    unfolding num_def using set_pick[OF obj] by blast
  have B: "(k, v) \<in> set bl \<longleftrightarrow>
          (k, v) \<in> set vs \<and> (\<exists>s. ToString ns v = Inr s \<and> s \<in> set [''true'', ''false''])
          \<and> k \<notin> set excludedValidations" for k v
    using pT[of v] by (auto simp: bl_def set_omit picked_def)
  have sub: "(k, w) \<in> set num \<Longrightarrow> (k, w) \<in> set vs" "(k, w) \<in> set bl \<Longrightarrow> (k, w) \<in> set vs" for k w
    using N B by blast+
  have kn: "k \<in> set (keys num) \<longleftrightarrow> (k, v) \<in> set num" if "(k, v) \<in> set vs" for k v
    using that sub(1) is_object_unique[OF obj] unfolding set_keys by blast
  have kb: "k \<in> set (keys bl) \<longleftrightarrow> (k, v) \<in> set bl" if "(k, v) \<in> set vs" for k v
    using that sub(2) is_object_unique[OF obj] unfolding set_keys by blast
  have K: "(k, v) \<in> set kv \<longleftrightarrow>
          (k, v) \<in> set vs \<and> (k, v) \<notin> set num \<and> (k, v) \<notin> set bl
          \<and> k \<notin> set excludedValidations
          \<and> \<not> (hideExamples = Some True \<and> k \<in> set exampleValidationNames)" for k v
    unfolding kv_def set_omit using kn[of k v] kb[of k v] by auto
  have O: "(k, v) \<in> set num \<and> (k, v) \<in> set bl \<longleftrightarrow>
          (k, v) \<in> set vs \<and> k \<in> set numberValidationNames \<and> k \<notin> set excludedValidations
          \<and> (\<exists>s. ToString ns v = Inr s \<and> s \<in> set [''true'', ''false''])" for k v
    unfolding N B by blast
  show ?thesis
    using V N B K O by blast
qed

lemma Validations_throws:
  assumes "(k, v) \<in> set vs" and "ToString ns v = Inl e"
  shows "\<exists>e'. Validations ns vs hideExamples = Inl e'"
proof -
  from pickBy_Inl[OF assms(1), of "\<lambda>v. case ToString ns v of Inl e \<Rightarrow> Inl e
                      | Inr s \<Rightarrow> Inr (s \<in> set [''true'', ''false''])" e] assms(2)
  obtain e' where "pickBy vs (\<lambda>v. case ToString ns v of Inl e \<Rightarrow> Inl e
                      | Inr s \<Rightarrow> Inr (s \<in> set [''true'', ''false''])) = Inl e'"
    by auto
  then show ?thesis
    by (simp add: Validations_def Let_def)
qed

section \<open>Required-ness, branch selection and rows\<close>

lemma isRequired_try_True:
  "isRequired_try ns x store n p = Inr True \<longleftrightarrow>
     (\<exists>m s required.
        getSchemaNodeMetadata store n = Inr m \<and> path m \<noteq> []
      \<and> getRelevantSchemaForRequireCheck x store p = Inr (SingleSchema s)
      \<and> getPrimaryType x s = Inr (JStr ''object'')
      \<and> dict_index (schema_fields s) ''required'' = JArr required
      \<and> (\<exists>s. ToString ns (last (path m)) = Inr s \<and> JStr s \<in> set required))"
  by (auto simp: isRequired_try_def split: sum.splits schema_result.splits jsval.splits if_splits)

lemma getRelevant_cases:
  "getRelevantSchemaForRequireCheck x store p =
     (case store (node_id p) of
        None \<Rightarrow> Inl (Error ''Missing metadata'')
      | Some (MetaError e) \<Rightarrow> Inr NullSchema
      | Some (MetaSchema pm) \<Rightarrow>
          Inr (if isArrayNodeWithItems x (schemaNode pm) then sn_items (schemaNode pm)
               else SingleSchema (schema pm)))"
  by (simp add: getRelevantSchemaForRequireCheck_def getNodeMetadata_def
        split: option.splits TreeNodeMeta.splits)

lemma indexOf_first:
  "i < length items \<Longrightarrow> ref item = ref (items ! i) \<Longrightarrow>
   \<exists>j\<le>i. indexOf items item = int j \<and> ref (items ! j) = ref item
        \<and> (\<forall>k<j. ref (items ! k) \<noteq> ref item)"
proof (induction items arbitrary: i)
  case Nil
  then show ?case by simp
next
  case (Cons y ys)
  show ?case
  proof (cases "ref y = ref item")
    case True
    then show ?thesis by (intro exI[of _ 0]) simp
  next
    case False
    with Cons.prems obtain i' where i': "i = Suc i'" by (cases i) auto
    with Cons.prems have "i' < length ys" "ref item = ref (ys ! i')" by auto
    from Cons.IH[OF this] obtain j where j: "j \<le> i'" "indexOf ys item = int j"
      "ref (ys ! j) = ref item" "\<forall>k<j. ref (ys ! k) \<noteq> ref item" by blast
    have "\<forall>k<Suc j. ref ((y # ys) ! k) \<noteq> ref item"
      using False j(4) by (auto simp: less_Suc_eq_0_disj)
    then show ?thesis
      using False j i' by (intro exI[of _ "Suc j"]) (simp add: Let_def)
  qed
qed

lemma isRequired_frame:
  assumes "store' (node_id m) = store (node_id m)"
    and "\<And>p. parent m = Some p \<Longrightarrow> store' (node_id p) = store (node_id p)"
  shows "isRequired ns x store' m = isRequired ns x store m"
proof (cases "parent m")
  case None
  then show ?thesis by (simp add: isRequired_def)
next
  case (Some p)
  have g: "getNodeMetadata store' p = getNodeMetadata store p"
    using assms(2)[OF Some] by (simp add: getNodeMetadata_def)
  have s: "getSchemaNodeMetadata store' m = getSchemaNodeMetadata store m"
    using assms(1) by (simp add: getSchemaNodeMetadata_def getNodeMetadata_def)
  have "isRequired_try ns x store' m p = isRequired_try ns x store m p"
    unfolding isRequired_try_def getRelevantSchemaForRequireCheck_def g s by (rule refl)
  then show ?thesis by (simp add: isRequired_def Some)
qed

lemma SchemaRow_frame:
  assumes "store' (node_id m) = store (node_id m)"
    and "\<And>p. parent m = Some p \<Longrightarrow> store' (node_id p) = store (node_id p)"
    and "state' (node_id m) = state (node_id m)"
  shows "SchemaRow ns x store' state' cls m ie = SchemaRow ns x store state cls m ie"
proof -
  have r: "isRequired ns x store' m = isRequired ns x store m"
    by (rule isRequired_frame[where store'=store' and store=store and m=m, OF assms(1,2)])
  have g: "getNodeMetadata store' m = getNodeMetadata store m"
    using assms(1) by (simp add: getNodeMetadata_def)
  have s: "getSchemaNodeMetadata store' m = getSchemaNodeMetadata store m"
    using assms(1) by (simp add: getSchemaNodeMetadata_def getNodeMetadata_def)
  have c: "getChoiceForNode state' (node_id m) = getChoiceForNode state (node_id m)"
    using assms(3) by (simp add: getChoiceForNode_def)
  have p: "parentSchemaNode_of x store' m = parentSchemaNode_of x store m"
  proof (cases "parent m")
    case None
    then show ?thesis by (simp add: parentSchemaNode_of_def)
  next
    case (Some q)
    have "getSchemaNodeMetadata store' q = getSchemaNodeMetadata store q"
      using assms(2)[OF Some] by (simp add: getSchemaNodeMetadata_def getNodeMetadata_def)
    then show ?thesis
      by (simp add: parentSchemaNode_of_def Some)
  qed
  have sp: "SchemaPropertyRow ns x store' state' m ie = SchemaPropertyRow ns x store state m ie"
    unfolding SchemaPropertyRow_def r p s c by (rule refl)
  show ?thesis
    unfolding SchemaRow_def g sp by (rule refl)
qed

lemma parentSchemaNode_of_ok:
  "(\<exists>r. parentSchemaNode_of x store n = Inr r) \<longleftrightarrow>
   (\<forall>p. parent n = Some p \<and> getLevel x p \<ge> 0 \<longrightarrow> (\<exists>pm. store (node_id p) = Some (MetaSchema pm)))"
  by (auto simp: parentSchemaNode_of_def getSchemaNodeMetadata_def getNodeMetadata_def
           split: option.splits sum.splits TreeNodeMeta.splits)

lemma has_Ref_ok:
  "(\<exists>b. has_Ref x sn = Inr b) \<longleftrightarrow> isRefNode x sn \<or> (\<exists>t. getPrimaryType_node x sn = Inr t)"
  by (auto simp: has_Ref_def split: sum.splits)

lemma divider_of_Inl:
  "divider_of n psn = Inl e \<longleftrightarrow>
   (\<exists>p. parent n = Some p \<and> children p = None
        \<and> e = TypeError ''Cannot read properties of undefined (reading length)'')"
  by (auto simp: divider_of_def split: option.splits)

lemma divider_of_Inr:
  "divider_of n psn = Inr d \<Longrightarrow> parent n = Some p \<Longrightarrow> children p \<noteq> None"
  by (auto simp: divider_of_def split: option.splits)

lemma select_of_ok:
  "(\<exists>s. select_of n (getCombinerOptions n) c = Inr s) \<longleftrightarrow>
   metadata n = MetadataUndefined
   \<or> (\<exists>items item. metadata n = MetadataObject (Some items) \<and> array_index items c = Some item)"
  by (auto simp: select_of_def getCombinerOptions_def split: node_metadata.splits option.splits)

lemma NumberValidations_ok:
  assumes "\<And>k v. (k, v) \<in> set num \<Longrightarrow> k \<in> set numberValidationNames \<and> (\<exists>s. ToString ns v = Inr s)"
  shows "\<exists>r. NumberValidations ns num = Inr r"
proof -
  define F where "F = (\<lambda>(key, value).
                         case numberValidationFormatters ns key of
                           None \<Rightarrow> Inl (TypeError ''numberValidationFormatters[key] is not a function'')
                         | Some f \<Rightarrow> f value)"
  have "F e = Inr (projr (F e))" if "e \<in> set num" for e
  proof -
    obtain k v where e: "e = (k, v)" by (cases e)
    from assms[of k v] that e obtain s where k: "k \<in> set numberValidationNames"
      and s: "ToString ns v = Inr s" by auto
    from formatter_defined[OF k, of ns] obtain f where f: "numberValidationFormatters ns k = Some f" ..
    have "\<exists>t. f v = Inr t"
      using f s by (auto simp: numberValidationFormatters_def template_def split: if_splits)
    then show ?thesis
      by (auto simp: F_def e f)
  qed
  then have "sequence_exn (map F num) = Inr (map (\<lambda>e. projr (F e)) num)"
    by (rule sequence_exn_map_Inr)
  then show ?thesis
    by (simp add: NumberValidations_def Let_def F_def)
qed

lemma render_Validations_ok:
  "(\<exists>b. render_Validations ns stringify capitalize vs hideExamples = Inr b) \<longleftrightarrow>
   (\<forall>k v. (k, v) \<in> set vs \<longrightarrow> (\<exists>s. ToString ns v = Inr s))"
proof
  assume "\<exists>b. render_Validations ns stringify capitalize vs hideExamples = Inr b"
  then obtain cs where "Validations ns vs hideExamples = Inr cs"
    by (auto simp: render_Validations_def split: sum.splits)
  then show "\<forall>k v. (k, v) \<in> set vs \<longrightarrow> (\<exists>s. ToString ns v = Inr s)"
    using Validations_Inr_D by blast
next
  assume str: "\<forall>k v. (k, v) \<in> set vs \<longrightarrow> (\<exists>s. ToString ns v = Inr s)"
  define p where "p = (\<lambda>v. case ToString ns v of Inl e \<Rightarrow> Inl e
                            | Inr s \<Rightarrow> (Inr (s \<in> set [''true'', ''false'']) :: exn + bool))"
  have "\<exists>b. p v = Inr b" if "(k, v) \<in> set vs" for k v
  proof -
    from str that obtain s where "ToString ns v = Inr s" by blast
    then show ?thesis by (simp add: p_def)
  qed
  then have pk: "pickBy vs p = Inr (filter (\<lambda>e. p (snd e) = Inr True) vs)"
    by (rule pickBy_Inr)
  have "k \<in> set numberValidationNames \<and> (\<exists>s. ToString ns v = Inr s)"
    if "(k, v) \<in> set (pick vs numberValidationNames)" for k v
  proof -
    from that have k: "k \<in> set numberValidationNames" and "dict_get vs k = Some v"
      by (simp_all add: set_pick_get)
    then have "(k, v) \<in> set vs" by (intro dict_get_in_set)
    with str k show ?thesis by blast
  qed
  then obtain r where "NumberValidations ns (pick vs numberValidationNames) = Inr r"
    using NumberValidations_ok by blast
  then show "\<exists>b. render_Validations ns stringify capitalize vs hideExamples = Inr b"
    using pk by (simp add: render_Validations_def Validations_def Let_def p_def)
qed

lemma SchemaPropertyRow_ok:
  "(\<exists>pr. SchemaPropertyRow ns x store state n ie = Inr pr) \<longleftrightarrow>
   (\<exists>m. getSchemaNodeMetadata store n = Inr m
      \<and> (\<exists>r. parentSchemaNode_of x store n = Inr r)
      \<and> (\<exists>b. has_Ref x (schemaNode m) = Inr b)
      \<and> (\<forall>p. parent n = Some p \<longrightarrow> children p \<noteq> None)
      \<and> (\<exists>s. select_of n (getCombinerOptions n) (getChoiceForNode state (node_id n)) = Inr s)
      \<and> (\<exists>b. render_Validations ns (JSON_stringify x) (lodash_capitalize x)
                 (validations_props (schemaNode m)) None = Inr b))"
  by (auto simp: SchemaPropertyRow_def Let_def divider_of_Inl split: sum.splits
           dest: divider_of_Inr)

lemmas sample_defs =
  sample_ext_def sample_store_def root_node_def object_node_def id_node_def name_node_def
  list_node_def entry_node_def list_schema_def
  error_node_def choice_node_def empty_choice_node_def twin_choice_node_def choice_meta_def
  plain_schemaNode_def string_schema_def number_schema_def object_schema_def
  age_node_def age_schemaNode_def age_schema_def

text \<open>The row of the property \<open>age\<close>, evaluated.\<close>

lemma age_row:
  "SchemaPropertyRow Number_toString_int sample_ext sample_store (\<lambda>i. None) age_node None
     = Inr \<lparr>row_caret = None, row_divider = None, row_property = ''age'', row_select = None,
            row_description = Some (JStr ''Age in years''), row_required = False,
            row_validations =
              [NumberValidations_block
                 (Some (''sl-flex sl-my-2 sl-text-muted'',
                        [Value 0 ''>= 0'' ''sl-mr-2'', Value 1 ''<= 150'' ''sl-mr-2''])),
               KeyValueValidations_block
                 [Some (''default'', ''Default value'', [TextValue (Some ''18'') (Some ''18'') ''sl-ml-2'']),
                  Some (''multipleOf'', ''Multiple of'', [TextValue (Some ''1'') (Some ''1'') ''sl-ml-2''])],
               NameValidations_block
                 (Some (''sl-flex sl-flex-wrap sl-my-2'',
                        [TextValue (Some ''deprecated'') (Some ''deprecated'')
                           ''sl-mr-2 sl-text-muted sl-capitalize'']))]\<rparr>"
proof -
  have d: "Number_toString_int 0 = ''0''" "Number_toString_int 1 = ''1''"
    "Number_toString_int 18 = ''18''" "Number_toString_int 150 = ''150''"
    by (simp_all add: Number_toString_int_def nat_digits.simps)
  have vp: "validations_props age_schemaNode
       = [(''default'', JNum 18), (''minimum'', JNum 0), (''maximum'', JNum 150),
          (''multipleOf'', JNum 1), (''deprecated'', JBool True)]"
    by (simp add: validations_props_def age_schemaNode_def dict_index_def dict_get_def)
  have V: "Validations Number_toString_int (validations_props age_schemaNode) None
     = Inr [NumberValidations_el [(''minimum'', JNum 0), (''maximum'', JNum 150)],
            KeyValueValidations_el [(''default'', JNum 18), (''multipleOf'', JNum 1)],
            NameValidations_el [(''deprecated'', JBool True)]]"
    unfolding vp
    by (simp add: Validations_def Let_def d numberValidationNames_def excludedValidations_def
          omit_def keys_def dict_get_def)
  have N: "NumberValidations Number_toString_int [(''minimum'', JNum 0), (''maximum'', JNum 150)]
      = Inr (Some (''sl-flex sl-my-2 sl-text-muted'',
                        [Value 0 ''>= 0'' ''sl-mr-2'', Value 1 ''<= 150'' ''sl-mr-2'']))"
    by (simp add: NumberValidations_def Let_def numberValidationFormatters_def template_def d
          enumerate_eq_zip)
  have K: "KeyValueValidations JSON_stringify_plain (\<lambda>t. t) [(''default'', JNum 18), (''multipleOf'', JNum 1)]
      = [Some (''default'', ''Default value'', [TextValue (Some ''18'') (Some ''18'') ''sl-ml-2'']),
         Some (''multipleOf'', ''Multiple of'', [TextValue (Some ''1'') (Some ''1'') ''sl-ml-2''])]"
    by (simp add: KeyValueValidations_def KeyValueValidation_def validationFormatters_def
          createValidationsFormatter_def createStringFormatter_def keys_def dict_index_def dict_get_def
          uniq_def d Let_def)
  have B: "NameValidations [(''deprecated'', JBool True)]
      = Some (''sl-flex sl-flex-wrap sl-my-2'',
                        [TextValue (Some ''deprecated'') (Some ''deprecated'')
                           ''sl-mr-2 sl-text-muted sl-capitalize''])"
    by (simp add: NameValidations_def keys_def dict_index_def dict_get_def)
  have R: "render_Validations Number_toString_int (JSON_stringify sample_ext) (lodash_capitalize sample_ext)
             (validations_props age_schemaNode) None
      = Inr [NumberValidations_block
                 (Some (''sl-flex sl-my-2 sl-text-muted'',
                        [Value 0 ''>= 0'' ''sl-mr-2'', Value 1 ''<= 150'' ''sl-mr-2''])),
               KeyValueValidations_block
                 [Some (''default'', ''Default value'', [TextValue (Some ''18'') (Some ''18'') ''sl-ml-2'']),
                  Some (''multipleOf'', ''Multiple of'', [TextValue (Some ''1'') (Some ''1'') ''sl-ml-2''])],
               NameValidations_block
                 (Some (''sl-flex sl-flex-wrap sl-my-2'',
                        [TextValue (Some ''deprecated'') (Some ''deprecated'')
                           ''sl-mr-2 sl-text-muted sl-capitalize'']))]"
    by (simp add: render_Validations_def V N K B sample_ext_def)
  have M: "getSchemaNodeMetadata sample_store age_node
       = Inr \<lparr>path = [JStr ''properties'', JStr ''age''], schemaNode = age_schemaNode, schema = age_schema\<rparr>"
    by (simp add: getSchemaNodeMetadata_def getNodeMetadata_def sample_store_def age_node_def)
  have Q: "isRequired Number_toString_int sample_ext sample_store age_node = False"
    by (simp add: isRequired_def isRequired_try_def getSchemaNodeMetadata_def getNodeMetadata_def
          getRelevant_cases age_node_def object_node_def
          sample_store_def sample_ext_def plain_schemaNode_def object_schema_def dict_index_def dict_get_def)
  show ?thesis
    unfolding SchemaPropertyRow_def M sum.case Let_def ITreeNodeMetaSchema.simps R Q
    by (simp add: parentSchemaNode_of_def has_Ref_def divider_of_def select_of_def
          getCombinerOptions_def getChoiceForNode_def getSchemaNodeMetadata_def getNodeMetadata_def
          age_node_def object_node_def root_node_def sample_store_def plain_schemaNode_def
          sample_ext_def age_schemaNode_def dict_index_def dict_get_def)
qed

section \<open>The validation extractor\<close>

text \<open>
  C1.  Let a schema node declare the format \<open>f\<close>.  If \<open>f\<close> is one of the formats of
  \<open>oasFormats\<close> (\<open>int32\<close>, \<open>int64\<close>, \<open>float\<close>, \<open>double\<close>, \<open>byte\<close>, see
  \<open>oasFormats_names\<close>), the extracted mapping has no entry whose value is the value
  \<open>f\<close> implies for that key, and every declared validation whose value differs from
  the implied one is kept.  If \<open>f\<close> is any other format, the declared validations are
  kept unchanged.
\<close>

theorem format_implied_validations_dropped:
  assumes obj: "is_object (validations n)" and fmt: "format n = Some f"
  shows "(f \<in> fst ` set oasFormats \<longrightarrow>
            (\<forall>k c. dict_get (oasFormats_entries f) k = Some c \<longrightarrow>
                    dict_get (getValidationsFromSchema n) k \<noteq> Some c) \<and>
            (\<forall>k v. dict_get (validations n) k = Some v \<and> dict_get (oasFormats_entries f) k \<noteq> Some v \<longrightarrow>
                    dict_get (getValidationsFromSchema n) k = Some v))
       \<and> (f \<notin> fst ` set oasFormats \<longrightarrow>
            getFilteredValidations n = validations n \<and>
            (\<forall>k v. dict_get (validations n) k = Some v \<longrightarrow>
                    dict_get (getValidationsFromSchema n) k = Some v))"
proof -
  have filt: "getFilteredValidations n = filterOutOasFormatValidations f (validations n)"
    using fmt by (simp add: getFilteredValidations_def)
  have dropped: "dict_get (getValidationsFromSchema n) k \<noteq> Some c"
    if c: "dict_get (oasFormats_entries f) k = Some c" for k c
  proof -
    from oas_entry_cases[OF c]
    have k: "k \<noteq> ''enum''" "k \<noteq> ''default''" "k \<noteq> ''examples''"
      and prim: "(\<exists>r. c = JNum r) \<or> (\<exists>s. c = JStr s)" by auto
    show ?thesis
      using c strict_eq_prim_index[OF prim, of "validations n" k]
      by (auto simp: dict_get_getValidationsFromSchema_other[OF obj k] filt dict_get_filterOut)
  qed
  have kept: "dict_get (getValidationsFromSchema n) k = Some v"
    if v: "dict_get (validations n) k = Some v" and ne: "dict_get (oasFormats_entries f) k \<noteq> Some v"
    for k v
  proof -
    have "dict_get (getFilteredValidations n) k = Some v"
    proof (cases "dict_get (oasFormats_entries f) k")
      case None
      then show ?thesis using v by (simp add: filt dict_get_filterOut)
    next
      case (Some c)
      from oas_entry_cases[OF Some] have prim: "(\<exists>r. c = JNum r) \<or> (\<exists>s. c = JStr s)" by auto
      show ?thesis
        using Some v ne strict_eq_prim_index[OF prim, of "validations n" k]
        by (simp add: filt dict_get_filterOut)
    qed
    then show ?thesis by (rule dict_get_getValidationsFromSchema_Some[OF obj])
  qed
  have unknown: "getFilteredValidations n = validations n" if nf: "f \<notin> fst ` set oasFormats"
  proof -
    have "map_of oasFormats f = None"
      using nf by (simp add: map_of_eq_None_iff)
    then show ?thesis
      by (simp add: filt filterOutOasFormatValidations_def oasFormats_entries_def)
  qed
  have kept_unknown: "dict_get (getValidationsFromSchema n) k = Some v"
    if nf: "f \<notin> fst ` set oasFormats" and v: "dict_get (validations n) k = Some v" for k v
    using dict_get_getValidationsFromSchema_Some[OF obj, of k v] unknown[OF nf] v by simp
  show ?thesis
  proof (intro conjI impI allI)
    fix k c assume "dict_get (oasFormats_entries f) k = Some c"
    then show "dict_get (getValidationsFromSchema n) k \<noteq> Some c" by (rule dropped)
  next
    fix k v
    assume "dict_get (validations n) k = Some v \<and> dict_get (oasFormats_entries f) k \<noteq> Some v"
    then show "dict_get (getValidationsFromSchema n) k = Some v" using kept by simp
  next
    assume "f \<notin> fst ` set oasFormats"
    then show "getFilteredValidations n = validations n" by (rule unknown)
  next
    fix k v assume "f \<notin> fst ` set oasFormats" "dict_get (validations n) k = Some v"
    then show "dict_get (getValidationsFromSchema n) k = Some v" by (rule kept_unknown)
  qed
qed

theorem format_implied_validations_dropped_witness:
  "''byte'' \<in> fst ` set oasFormats
   \<and> dict_get (oasFormats_entries ''byte'') ''pattern'' = dict_get (validations byte_node) ''pattern''
   \<and> dict_get (getValidationsFromSchema byte_node) ''pattern'' = None
   \<and> dict_get (getValidationsFromSchema byte_node) ''minLength'' = Some (JNum 1)
   \<and> ''email'' \<notin> fst ` set oasFormats
   \<and> getFilteredValidations email_node = validations email_node
   \<and> dict_get (getValidationsFromSchema email_node) ''minLength'' = Some (JNum 5)"
proof -
  have obj: "is_object (validations byte_node)"
    by (simp add: byte_node_def is_object_def)
  have fmt: "format byte_node = Some ''byte''"
    by (simp add: byte_node_def)
  have known: "''byte'' \<in> fst ` set oasFormats"
    by (simp add: oasFormats_def)
  have e: "dict_get (oasFormats_entries ''byte'') ''pattern'' = dict_get (validations byte_node) ''pattern''"
    by (simp add: oasFormats_entries_def oasFormats_def dict_get_def byte_node_def)
  have m: "dict_get (validations byte_node) ''minLength'' = Some (JNum 1)"
    by (simp add: byte_node_def dict_get_def)
  have m': "dict_get (oasFormats_entries ''byte'') ''minLength'' \<noteq> Some (JNum 1)"
    by (simp add: oasFormats_entries_def oasFormats_def dict_get_def)
  have p': "dict_get (getValidationsFromSchema byte_node) ''pattern'' = None"
    by (simp add: getValidationsFromSchema_def getFilteredValidations_def byte_node_def
          filterOutOasFormatValidations_def in_oasFormats_def oasFormats_entries_def oasFormats_def
          dict_index_def dict_get_def dict_delete_def)
  from format_implied_validations_dropped[OF obj fmt] known m m'
  have k: "dict_get (getValidationsFromSchema byte_node) ''minLength'' = Some (JNum 1)"
    by simp
  have obj2: "is_object (validations email_node)"
    by (simp add: email_node_def is_object_def)
  have fmt2: "format email_node = Some ''email''"
    by (simp add: email_node_def)
  have u: "''email'' \<notin> fst ` set oasFormats"
    by (simp add: oasFormats_def)
  have m2: "dict_get (validations email_node) ''minLength'' = Some (JNum 5)"
    by (simp add: email_node_def dict_get_def)
  from format_implied_validations_dropped[OF obj2 fmt2] u m2
  have "getFilteredValidations email_node = validations email_node
        \<and> dict_get (getValidationsFromSchema email_node) ''minLength'' = Some (JNum 5)"
    by simp
  with known e p' k u show ?thesis by simp
qed

text \<open>
  C7.  The extractor tests \<open>annotations.default\<close> for truthiness, not for presence:
  a node whose annotations hold \<open>default: false\<close> has no \<open>default\<close> entry in the
  extracted mapping.
\<close>

theorem default_false_not_extracted:
  "dict_get (the (annotations default_false_node)) ''default'' = Some (JBool False)
   \<and> dict_get (getValidationsFromSchema default_false_node) ''default'' = None"
  by (simp add: getValidationsFromSchema_def getFilteredValidations_def default_false_node_def
        dict_index_def dict_get_def)

text \<open>
  C10.  \<open>validationCount\<close> is the number of distinct kinds among the keys of the
  extracted mapping that are not excluded, where a key of \<open>numberValidationNames\<close> has
  the kind \<open>number\<close> and any other key is its own kind (kinds are strings: a key that
  is itself \<open>number\<close> has the kind of the numeric keys).  In particular the count is 1
  when the extracted mapping has exactly the keys \<open>minimum\<close> and \<open>maximum\<close>.
\<close>

theorem validationCount_kinds:
  "validationCount n
     = card ((\<lambda>key. if key \<in> set numberValidationNames then ''number'' else key)
               ` (set (keys (getValidationsFromSchema n)) - set excludedValidations))
   \<and> (set (keys (getValidationsFromSchema n)) = {''minimum'', ''maximum''} \<longrightarrow> validationCount n = 1)"
proof -
  have count: "validationCount n
     = card ((\<lambda>key. if key \<in> set numberValidationNames then ''number'' else key)
               ` (set (keys (getValidationsFromSchema n)) - set excludedValidations))"
    by (simp add: validationCount_def Let_def length_uniq set_keys_omit)
  have one: "validationCount n = 1" if k: "set (keys (getValidationsFromSchema n)) = {''minimum'', ''maximum''}"
  proof -
    have "(\<lambda>key. if key \<in> set numberValidationNames then ''number'' else key)
               ` ({''minimum'', ''maximum''} - set excludedValidations) = {''number''}"
      by (simp add: numberValidationNames_def excludedValidations_def)
    then show ?thesis unfolding count k by simp
  qed
  show ?thesis using count one by blast
qed

theorem validationCount_kinds_witness:
  "set (keys (getValidationsFromSchema min_max_node)) = {''minimum'', ''maximum''}
   \<and> validationCount min_max_node = 1"
proof -
  have k: "set (keys (getValidationsFromSchema min_max_node)) = {''minimum'', ''maximum''}"
    by (simp add: getValidationsFromSchema_def getFilteredValidations_def min_max_node_def keys_def
          dict_index_def dict_get_def)
  with validationCount_kinds[of min_max_node] show ?thesis by simp
qed

section \<open>The validation presenter\<close>

text \<open>
  C4, as amended.  Take a validation object and any \<open>hideExamples\<close>.  When
  \<open>String\<close> can convert every value, \<open>Validations\<close> returns the numeric block,
  then the keyed block, then the boolean block.  An entry is in the numeric bucket iff its
  key is one of \<open>numberValidationNames\<close>; in the boolean bucket iff its value
  stringifies to \<open>true\<close> or \<open>false\<close> and its key is not excluded; and in the
  keyed bucket iff it is in neither of the two, its key is not excluded, and it is not
  \<open>examples\<close> while \<open>hideExamples\<close> is set.  The buckets are not a partition:
  an entry is in the numeric and in the boolean bucket at once iff its key is a numeric
  name that is not excluded and its value stringifies to \<open>true\<close> or \<open>false\<close>.
  When \<open>String\<close> cannot convert some value, \<open>Validations\<close> throws.
\<close>

theorem Validations_buckets:
  assumes obj: "is_object vs"
  shows "((\<forall>k v. (k, v) \<in> set vs \<longrightarrow> (\<exists>s. ToString ns v = Inr s)) \<longrightarrow>
     (\<exists>num kv bl.
      Validations ns vs hideExamples
        = Inr [NumberValidations_el num, KeyValueValidations_el kv, NameValidations_el bl]
    \<and> (\<forall>k v. (k, v) \<in> set num \<longleftrightarrow> (k, v) \<in> set vs \<and> k \<in> set numberValidationNames)
    \<and> (\<forall>k v. (k, v) \<in> set bl \<longleftrightarrow>
          (k, v) \<in> set vs \<and> (\<exists>s. ToString ns v = Inr s \<and> s \<in> set [''true'', ''false''])
          \<and> k \<notin> set excludedValidations)
    \<and> (\<forall>k v. (k, v) \<in> set kv \<longleftrightarrow>
          (k, v) \<in> set vs \<and> (k, v) \<notin> set num \<and> (k, v) \<notin> set bl
          \<and> k \<notin> set excludedValidations
          \<and> \<not> (hideExamples = Some True \<and> k \<in> set exampleValidationNames))
    \<and> (\<forall>k v. (k, v) \<in> set num \<and> (k, v) \<in> set bl \<longleftrightarrow>
          (k, v) \<in> set vs \<and> k \<in> set numberValidationNames \<and> k \<notin> set excludedValidations
          \<and> (\<exists>s. ToString ns v = Inr s \<and> s \<in> set [''true'', ''false'']))))
   \<and> ((\<exists>k v e. (k, v) \<in> set vs \<and> ToString ns v = Inl e) \<longrightarrow>
        (\<exists>e. Validations ns vs hideExamples = Inl e))"
proof (intro conjI impI)
  assume "\<forall>k v. (k, v) \<in> set vs \<longrightarrow> (\<exists>s. ToString ns v = Inr s)"
  with obj show "\<exists>num kv bl.
      Validations ns vs hideExamples
        = Inr [NumberValidations_el num, KeyValueValidations_el kv, NameValidations_el bl]
    \<and> (\<forall>k v. (k, v) \<in> set num \<longleftrightarrow> (k, v) \<in> set vs \<and> k \<in> set numberValidationNames)
    \<and> (\<forall>k v. (k, v) \<in> set bl \<longleftrightarrow>
          (k, v) \<in> set vs \<and> (\<exists>s. ToString ns v = Inr s \<and> s \<in> set [''true'', ''false''])
          \<and> k \<notin> set excludedValidations)
    \<and> (\<forall>k v. (k, v) \<in> set kv \<longleftrightarrow>
          (k, v) \<in> set vs \<and> (k, v) \<notin> set num \<and> (k, v) \<notin> set bl
          \<and> k \<notin> set excludedValidations
          \<and> \<not> (hideExamples = Some True \<and> k \<in> set exampleValidationNames))
    \<and> (\<forall>k v. (k, v) \<in> set num \<and> (k, v) \<in> set bl \<longleftrightarrow>
          (k, v) \<in> set vs \<and> k \<in> set numberValidationNames \<and> k \<notin> set excludedValidations
          \<and> (\<exists>s. ToString ns v = Inr s \<and> s \<in> set [''true'', ''false'']))"
    by (rule Validations_sorted)
next
  assume "\<exists>k v e. (k, v) \<in> set vs \<and> ToString ns v = Inl e"
  then obtain k v e where "(k, v) \<in> set vs" "ToString ns v = Inl e" by blast
  then show "\<exists>e. Validations ns vs hideExamples = Inl e"
    by (rule Validations_throws)
qed

theorem Validations_buckets_witness:
  "is_object flags_validations
   \<and> Validations Number_toString_int flags_validations (Some True)
     = Inr [NumberValidations_el [(''minimum'', JNum 1)],
            KeyValueValidations_el [(''enum'', JArr [JStr ''a'', JStr ''b''])],
            NameValidations_el [(''uniqueItems'', JBool True)]]
   \<and> (''minimum'', JNum 1) \<in> set flags_validations
   \<and> ''minimum'' \<in> set numberValidationNames
   \<and> ToString Number_toString_int (JBool True) = Inr ''true''
   \<and> ''uniqueItems'' \<notin> set excludedValidations
   \<and> is_object [(''default'', JObj [(''toString'', JNum 1)])]
   \<and> ToString Number_toString_int (JObj [(''toString'', JNum 1)])
        = Inl (TypeError ''Cannot convert object to primitive value'')
   \<and> (\<exists>e. Validations Number_toString_int [(''default'', JObj [(''toString'', JNum 1)])] None = Inl e)"
proof -
  have obj: "is_object flags_validations"
    by (simp add: flags_validations_def is_object_def)
  have str: "\<forall>k v. (k, v) \<in> set flags_validations \<longrightarrow> (\<exists>s. ToString Number_toString_int v = Inr s)"
    by (auto simp: flags_validations_def)
  from Validations_buckets[OF obj, of Number_toString_int "Some True"] str
  obtain num kv bl where
    V: "Validations Number_toString_int flags_validations (Some True)
         = Inr [NumberValidations_el num, KeyValueValidations_el kv, NameValidations_el bl]"
    and N: "\<forall>k v. (k, v) \<in> set num \<longleftrightarrow> (k, v) \<in> set flags_validations \<and> k \<in> set numberValidationNames"
    and B: "\<forall>k v. (k, v) \<in> set bl \<longleftrightarrow>
          (k, v) \<in> set flags_validations
          \<and> (\<exists>s. ToString Number_toString_int v = Inr s \<and> s \<in> set [''true'', ''false''])
          \<and> k \<notin> set excludedValidations"
    by blast
  have d: "Number_toString_int 1 = ''1''"
    by (simp add: Number_toString_int_def nat_digits.simps)
  have P: "pick flags_validations numberValidationNames = [(''minimum'', JNum 1)]"
    by (simp add: flags_validations_def numberValidationNames_def dict_get_def)
  have PB: "pickBy flags_validations (\<lambda>v. case ToString Number_toString_int v of Inl e \<Rightarrow> Inl e
                      | Inr s \<Rightarrow> Inr (s \<in> set [''true'', ''false'']))
              = Inr [(''readOnly'', JBool True), (''uniqueItems'', JBool True)]"
    by (simp add: flags_validations_def d)
  have O: "omit [(''readOnly'', JBool True), (''uniqueItems'', JBool True)] excludedValidations
              = [(''uniqueItems'', JBool True)]"
    by (simp add: omit_def excludedValidations_def)
  have E: "Validations Number_toString_int flags_validations (Some True)
     = Inr [NumberValidations_el [(''minimum'', JNum 1)],
            KeyValueValidations_el [(''enum'', JArr [JStr ''a'', JStr ''b''])],
            NameValidations_el [(''uniqueItems'', JBool True)]]"
    unfolding Validations_def Let_def P PB sum.case O
    by (simp add: flags_validations_def excludedValidations_def exampleValidationNames_def
          omit_def keys_def)
  from V E have nb: "num = [(''minimum'', JNum 1)]" "bl = [(''uniqueItems'', JBool True)]" by simp_all
  from N[rule_format, of "''minimum''" "JNum 1"] nb
  have n: "(''minimum'', JNum 1) \<in> set flags_validations \<and> ''minimum'' \<in> set numberValidationNames"
    by simp
  from B[rule_format, of "''uniqueItems''" "JBool True"] nb
  have b: "ToString Number_toString_int (JBool True) = Inr ''true'' \<and> ''uniqueItems'' \<notin> set excludedValidations"
    by simp
  have obj': "is_object [(''default'', JObj [(''toString'', JNum 1)])]"
    by (simp add: is_object_def)
  have t: "ToString Number_toString_int (JObj [(''toString'', JNum 1)])
        = Inl (TypeError ''Cannot convert object to primitive value'')"
    by simp
  from Validations_buckets[OF obj', of Number_toString_int None] t
  have "\<exists>e. Validations Number_toString_int [(''default'', JObj [(''toString'', JNum 1)])] None = Inl e"
    by auto
  with obj E n b obj' t show ?thesis by simp
qed

text \<open>
  C4 as stated fails: the buckets do not partition the keys.  The entry
  \<open>minimum: true\<close> is in the numeric and in the boolean bucket.  And for
  \<open>default: {toString: 1}\<close>, whose value \<open>String\<close> cannot convert, there are no
  buckets: \<open>Validations\<close> throws a \<open>TypeError\<close>.
\<close>

theorem Validations_overlap_counterexample:
  "Validations Number_toString_int [(''minimum'', JBool True)] None
     = Inr [NumberValidations_el [(''minimum'', JBool True)],
            KeyValueValidations_el [],
            NameValidations_el [(''minimum'', JBool True)]]
   \<and> Validations Number_toString_int [(''default'', JObj [(''toString'', JNum 1)])] None
     = Inl (TypeError ''Cannot convert object to primitive value'')"
  by (simp add: Validations_def Let_def numberValidationNames_def excludedValidations_def
        omit_def keys_def dict_get_def)

text \<open>
  C6, as amended.  Let \<open>num\<close> be the numeric bucket \<open>Validations\<close> hands to
  \<open>NumberValidations\<close>.  Then \<open>NumberValidations\<close> renders one badge per entry, in
  order, and the text of the badge follows the template of the entry's key, written with
  the ASCII signs \<open>>=\<close> and \<open><=\<close>: \<open>minimum\<close> gives \<open>>= v\<close>,
  \<open>exclusiveMinimum\<close> gives \<open>> v\<close>, \<open>minItems\<close> gives \<open>>= v items\<close>,
  \<open>minLength\<close> gives \<open>>= v characters\<close>, \<open>maximum\<close> gives \<open><= v\<close>,
  \<open>exclusiveMaximum\<close> gives \<open>< v\<close>, \<open>maxItems\<close> gives \<open><= v items\<close> and
  \<open>maxLength\<close> gives \<open><= v characters\<close>, where \<open>v\<close> is the value as a string
  (\<open>String\<close> converts it: \<open>Validations\<close> has converted every value before).
\<close>

theorem NumberValidations_badges:
  assumes "Validations ns vs hideExamples = Inr [NumberValidations_el num, kv, bl]"
  shows "\<exists>badges.
      NumberValidations ns num
        = Inr (if num = [] then None else Some (''sl-flex sl-my-2 sl-text-muted'', badges))
    \<and> length badges = length num
    \<and> (\<forall>i < length num. \<exists>text v. badges ! i = Value i text ''sl-mr-2''
          \<and> ToString ns (snd (num ! i)) = Inr v
          \<and> (let k = fst (num ! i)
             in k \<in> set numberValidationNames
              \<and> (k = ''minimum'' \<longrightarrow> text = ''>= '' @ v)
              \<and> (k = ''exclusiveMinimum'' \<longrightarrow> text = ''> '' @ v)
              \<and> (k = ''minItems'' \<longrightarrow> text = ''>= '' @ v @ '' items'')
              \<and> (k = ''minLength'' \<longrightarrow> text = ''>= '' @ v @ '' characters'')
              \<and> (k = ''maximum'' \<longrightarrow> text = ''<= '' @ v)
              \<and> (k = ''exclusiveMaximum'' \<longrightarrow> text = ''< '' @ v)
              \<and> (k = ''maxItems'' \<longrightarrow> text = ''<= '' @ v @ '' items'')
              \<and> (k = ''maxLength'' \<longrightarrow> text = ''<= '' @ v @ '' characters'')))"
proof -
  have num: "num = pick vs numberValidationNames"
    using assms by (auto simp: Validations_def Let_def split: sum.splits)
  define F where "F = (\<lambda>(key, value).
                         case numberValidationFormatters ns key of
                           None \<Rightarrow> Inl (TypeError ''numberValidationFormatters[key] is not a function'')
                         | Some f \<Rightarrow> f value)"
  define g where "g = (\<lambda>e. projr (F e))"
  define badges where "badges = map (\<lambda>(i, value). Value i value ''sl-mr-2'') (enumerate 0 (map g num))"
  have K: "fst e \<in> set numberValidationNames" and S: "\<exists>v. ToString ns (snd e) = Inr v"
    if "e \<in> set num" for e
  proof -
    from that have e: "fst e \<in> set numberValidationNames \<and> dict_get vs (fst e) = Some (snd e)"
      using set_pick_get[of "fst e" "snd e" vs numberValidationNames] num by simp
    then show "fst e \<in> set numberValidationNames" by simp
    from e have "(fst e, snd e) \<in> set vs" by (intro dict_get_in_set) simp
    then show "\<exists>v. ToString ns (snd e) = Inr v" by (rule Validations_Inr_D[OF assms])
  qed
  have T: "F e = Inr (g e)
         \<and> (fst e = ''minimum'' \<longrightarrow> g e = ''>= '' @ v)
         \<and> (fst e = ''exclusiveMinimum'' \<longrightarrow> g e = ''> '' @ v)
         \<and> (fst e = ''minItems'' \<longrightarrow> g e = ''>= '' @ v @ '' items'')
         \<and> (fst e = ''minLength'' \<longrightarrow> g e = ''>= '' @ v @ '' characters'')
         \<and> (fst e = ''maximum'' \<longrightarrow> g e = ''<= '' @ v)
         \<and> (fst e = ''exclusiveMaximum'' \<longrightarrow> g e = ''< '' @ v)
         \<and> (fst e = ''maxItems'' \<longrightarrow> g e = ''<= '' @ v @ '' items'')
         \<and> (fst e = ''maxLength'' \<longrightarrow> g e = ''<= '' @ v @ '' characters'')"
    if k: "fst e \<in> set numberValidationNames" and v: "ToString ns (snd e) = Inr v" for e v
  proof -
    obtain key val where e: "e = (key, val)" by (cases e)
    from formatter_defined[OF k, of ns] obtain f where f: "numberValidationFormatters ns key = Some f"
      by (auto simp: e)
    have "\<exists>t. f val = Inr t"
      using f v by (auto simp: numberValidationFormatters_def template_def e split: if_splits)
    then have Fg: "F e = Inr (g e)"
      by (auto simp: g_def F_def e f)
    have tv: "ToString ns val = Inr v"
      using v by (simp add: e)
    show ?thesis
      unfolding e fst_conv
      by (intro conjI impI Fg[unfolded e];
          simp add: g_def F_def numberValidationFormatters_def template_def tv)
  qed
  have "sequence_exn (map F num) = Inr (map g num)"
  proof (rule sequence_exn_map_Inr)
    fix e assume "e \<in> set num"
    from K[OF this] S[OF this] T[of e] show "F e = Inr (g e)" by blast
  qed
  then have R: "NumberValidations ns num
        = Inr (if num = [] then None else Some (''sl-flex sl-my-2 sl-text-muted'', badges))"
    by (simp add: NumberValidations_def Let_def F_def badges_def)
  have L: "length badges = length num"
    by (simp add: badges_def)
  have B: "badges ! i = Value i (g (num ! i)) ''sl-mr-2''" if "i < length num" for i
    using that by (simp add: badges_def nth_enumerate_eq)
  show ?thesis
  proof (intro exI[of _ badges] conjI allI impI)
    show "NumberValidations ns num
        = Inr (if num = [] then None else Some (''sl-flex sl-my-2 sl-text-muted'', badges))" by (rule R)
    show "length badges = length num" by (rule L)
    fix i assume i: "i < length num"
    then have m: "num ! i \<in> set num" by simp
    from S[OF m] obtain v where v: "ToString ns (snd (num ! i)) = Inr v" ..
    show "\<exists>text v. badges ! i = Value i text ''sl-mr-2''
          \<and> ToString ns (snd (num ! i)) = Inr v
          \<and> (let k = fst (num ! i)
             in k \<in> set numberValidationNames
              \<and> (k = ''minimum'' \<longrightarrow> text = ''>= '' @ v)
              \<and> (k = ''exclusiveMinimum'' \<longrightarrow> text = ''> '' @ v)
              \<and> (k = ''minItems'' \<longrightarrow> text = ''>= '' @ v @ '' items'')
              \<and> (k = ''minLength'' \<longrightarrow> text = ''>= '' @ v @ '' characters'')
              \<and> (k = ''maximum'' \<longrightarrow> text = ''<= '' @ v)
              \<and> (k = ''exclusiveMaximum'' \<longrightarrow> text = ''< '' @ v)
              \<and> (k = ''maxItems'' \<longrightarrow> text = ''<= '' @ v @ '' items'')
              \<and> (k = ''maxLength'' \<longrightarrow> text = ''<= '' @ v @ '' characters''))"
      unfolding Let_def
      using B[OF i] K[OF m] v T[OF K[OF m] v]
      by (intro exI[of _ "g (num ! i)"] exI[of _ v]) simp
  qed
qed

theorem NumberValidations_badges_witness:
  "NumberValidations Number_toString_int (pick all_bounds numberValidationNames)
       = Inr (Some (''sl-flex sl-my-2 sl-text-muted'',
                    [Value 0 ''>= 1'' ''sl-mr-2'', Value 1 ''<= 10'' ''sl-mr-2'',
                     Value 2 ''>= 1 characters'' ''sl-mr-2'', Value 3 ''<= 10 characters'' ''sl-mr-2'',
                     Value 4 ''>= 1 items'' ''sl-mr-2'', Value 5 ''<= 10 items'' ''sl-mr-2'',
                     Value 6 ''> 1'' ''sl-mr-2'', Value 7 ''< 10'' ''sl-mr-2'']))"
proof -
  let ?num = "[(''minimum'', JNum 1), (''maximum'', JNum 10), (''minLength'', JNum 1),
               (''maxLength'', JNum 10), (''minItems'', JNum 1), (''maxItems'', JNum 10),
               (''exclusiveMinimum'', JNum 1), (''exclusiveMaximum'', JNum 10)]"
  have P: "pick all_bounds numberValidationNames = ?num"
    by (simp add: all_bounds_def numberValidationNames_def dict_get_def)
  have d: "Number_toString_int 1 = ''1''" "Number_toString_int 10 = ''10''"
    by (simp_all add: Number_toString_int_def nat_digits.simps)
  have s: "ToString Number_toString_int (JNum 1) = Inr ''1''"
    "ToString Number_toString_int (JNum 10) = Inr ''10''"
    by (simp_all add: d)
  have PB: "pickBy all_bounds (\<lambda>v. case ToString Number_toString_int v of Inl e \<Rightarrow> Inl e
                      | Inr s \<Rightarrow> Inr (s \<in> set [''true'', ''false''])) = Inr []"
    by (simp add: all_bounds_def d)
  have V: "Validations Number_toString_int all_bounds None
     = Inr [NumberValidations_el ?num,
            KeyValueValidations_el (omit all_bounds (keys ?num @ keys (omit [] excludedValidations)
                                       @ excludedValidations @ [])),
            NameValidations_el (omit [] excludedValidations)]"
    by (simp add: Validations_def Let_def P PB)
  from NumberValidations_badges[OF V] obtain badges where
    R: "NumberValidations Number_toString_int ?num
          = Inr (if ?num = [] then None else Some (''sl-flex sl-my-2 sl-text-muted'', badges))"
    and L: "length badges = length ?num"
    and B: "\<forall>i < length ?num. \<exists>text v. badges ! i = Value i text ''sl-mr-2''
          \<and> ToString Number_toString_int (snd (?num ! i)) = Inr v
          \<and> (let k = fst (?num ! i)
             in k \<in> set numberValidationNames
              \<and> (k = ''minimum'' \<longrightarrow> text = ''>= '' @ v)
              \<and> (k = ''exclusiveMinimum'' \<longrightarrow> text = ''> '' @ v)
              \<and> (k = ''minItems'' \<longrightarrow> text = ''>= '' @ v @ '' items'')
              \<and> (k = ''minLength'' \<longrightarrow> text = ''>= '' @ v @ '' characters'')
              \<and> (k = ''maximum'' \<longrightarrow> text = ''<= '' @ v)
              \<and> (k = ''exclusiveMaximum'' \<longrightarrow> text = ''< '' @ v)
              \<and> (k = ''maxItems'' \<longrightarrow> text = ''<= '' @ v @ '' items'')
              \<and> (k = ''maxLength'' \<longrightarrow> text = ''<= '' @ v @ '' characters''))"
    by blast
  have b: "badges ! 0 = Value 0 ''>= 1'' ''sl-mr-2''"
    "badges ! 1 = Value 1 ''<= 10'' ''sl-mr-2''"
    "badges ! 2 = Value 2 ''>= 1 characters'' ''sl-mr-2''"
    "badges ! 3 = Value 3 ''<= 10 characters'' ''sl-mr-2''"
    "badges ! 4 = Value 4 ''>= 1 items'' ''sl-mr-2''"
    "badges ! 5 = Value 5 ''<= 10 items'' ''sl-mr-2''"
    "badges ! 6 = Value 6 ''> 1'' ''sl-mr-2''"
    "badges ! 7 = Value 7 ''< 10'' ''sl-mr-2''"
    using B[rule_format, of 0] B[rule_format, of 1] B[rule_format, of 2] B[rule_format, of 3]
      B[rule_format, of 4] B[rule_format, of 5] B[rule_format, of 6] B[rule_format, of 7]
    by (auto simp: Let_def d)
  have "badges = map ((!) badges) [0..<length badges]"
    by (simp add: map_nth)
  also have "\<dots> = map ((!) badges) [0, 1, 2, 3, 4, 5, 6, 7]"
    using L by (simp add: upt_rec eval_nat_numeral)
  finally have "badges = [Value 0 ''>= 1'' ''sl-mr-2'', Value 1 ''<= 10'' ''sl-mr-2'',
                     Value 2 ''>= 1 characters'' ''sl-mr-2'', Value 3 ''<= 10 characters'' ''sl-mr-2'',
                     Value 4 ''>= 1 items'' ''sl-mr-2'', Value 5 ''<= 10 items'' ''sl-mr-2'',
                     Value 6 ''> 1'' ''sl-mr-2'', Value 7 ''< 10'' ''sl-mr-2'']"
    using b by simp
  then show ?thesis using R P by simp
qed

text \<open>
  C6 as stated fails: for \<open>minimum: 1\<close> the badge reads \<open>>= 1\<close>, which is not the
  text that starts with the sign U+2265 (in UTF-8 the bytes E2 89 A5).
\<close>

theorem NumberValidations_text_counterexample:
  "NumberValidations Number_toString_int (pick [(''minimum'', JNum 1)] numberValidationNames)
     = Inr (Some (''sl-flex sl-my-2 sl-text-muted'', [Value 0 ''>= 1'' ''sl-mr-2'']))
   \<and> ToString Number_toString_int (JNum 1) = Inr ''1''
   \<and> ''>= 1'' \<noteq> [CHR 0xE2, CHR 0x89, CHR 0xA5] @ '' '' @ ''1''"
  by (simp add: NumberValidations_def Let_def numberValidationNames_def dict_get_def
        numberValidationFormatters_def template_def Number_toString_int_def nat_digits.simps
        enumerate_eq_zip)

section \<open>The node-click listener\<close>

text \<open>
  C9.  On a node click, \<open>toggleExpand\<close> is called on the clicked node iff the node has
  children; then it is the only call, and the tree store changes as \<open>toggleExpand\<close>
  changes it.  On a click on a node without children no call is made and the tree store,
  hence the expansion state of every node, is unchanged.
\<close>

theorem NodeClick_toggles_parents_only:
  "(ToggleExpand node \<in> set (NodeClick_listener node) \<longleftrightarrow> children node \<noteq> None)
   \<and> (children node \<noteq> None \<longrightarrow>
         NodeClick_listener node = [ToggleExpand node]
         \<and> perform toggleExpand st (NodeClick_listener node) = toggleExpand st node)
   \<and> (children node = None \<longrightarrow>
         NodeClick_listener node = []
         \<and> perform toggleExpand st (NodeClick_listener node) = st)"
  by (simp add: NodeClick_listener_def)

theorem NodeClick_toggles_parents_only_witness:
  "children object_node \<noteq> None \<and> children id_node = None
   \<and> NodeClick_listener object_node = [ToggleExpand object_node]
   \<and> perform (\<lambda>st n. st(node_id n := \<not> st (node_id n))) (\<lambda>i. False) (NodeClick_listener object_node) ''obj''
   \<and> NodeClick_listener id_node = []
   \<and> \<not> perform (\<lambda>st n. st(node_id n := \<not> st (node_id n))) (\<lambda>i. False) (NodeClick_listener id_node) ''id''"
proof -
  have p: "children object_node \<noteq> None" and l: "children id_node = None"
    by (simp_all add: object_node_def id_node_def)
  show ?thesis
    using NodeClick_toggles_parents_only[of object_node "\<lambda>st n. st(node_id n := \<not> st (node_id n))" "\<lambda>i. False"]
      NodeClick_toggles_parents_only[of id_node "\<lambda>st n. st(node_id n := \<not> st (node_id n))" "\<lambda>i. False"] p l
    by (simp add: object_node_def)
qed

section \<open>The row\<close>

text \<open>
  C2.  \<open>isRequired\<close> is false for a node without parent and for a node whose path is
  empty.  For a node with parent \<open>p\<close> and a non-empty path it is true iff the relevant
  schema of \<open>p\<close> is a single schema (not \<open>null\<close>, not an array) whose primary type is
  \<open>object\<close> and whose \<open>required\<close> is an array that contains the last path segment
  as a string.  The relevant schema of a parent with schema metadata is the \<open>items\<close> of
  its schema node when that is an array node with items, and its schema otherwise; it is
  \<open>null\<close> for a parent with an error placeholder.  Whenever a lookup throws (the
  metadata of the node or of its parent, the primary type), the result is false.
\<close>

theorem isRequired_characterisation:
  "(parent n = None \<longrightarrow> \<not> isRequired ns x store n)
   \<and> (\<forall>m. getSchemaNodeMetadata store n = Inr m \<and> path m = [] \<longrightarrow> \<not> isRequired ns x store n)
   \<and> (\<forall>p m. parent n = Some p \<and> getSchemaNodeMetadata store n = Inr m \<and> path m \<noteq> [] \<longrightarrow>
         (isRequired ns x store n \<longleftrightarrow>
            (\<exists>s required.
               getRelevantSchemaForRequireCheck x store p = Inr (SingleSchema s)
             \<and> getPrimaryType x s = Inr (JStr ''object'')
             \<and> dict_index (schema_fields s) ''required'' = JArr required
             \<and> (\<exists>seg. ToString ns (last (path m)) = Inr seg \<and> JStr seg \<in> set required))))
   \<and> (\<forall>p pm. store (node_id p) = Some (MetaSchema pm) \<longrightarrow>
         getRelevantSchemaForRequireCheck x store p
           = Inr (if isArrayNodeWithItems x (schemaNode pm) then sn_items (schemaNode pm)
                  else SingleSchema (schema pm)))
   \<and> (\<forall>p pe. store (node_id p) = Some (MetaError pe) \<longrightarrow>
         getRelevantSchemaForRequireCheck x store p = Inr NullSchema)
   \<and> (\<forall>e. getSchemaNodeMetadata store n = Inl e \<longrightarrow> \<not> isRequired ns x store n)
   \<and> (\<forall>p e. parent n = Some p \<and> getRelevantSchemaForRequireCheck x store p = Inl e \<longrightarrow>
         \<not> isRequired ns x store n)
   \<and> (\<forall>p s e. parent n = Some p \<and> getRelevantSchemaForRequireCheck x store p = Inr (SingleSchema s)
           \<and> getPrimaryType x s = Inl e \<longrightarrow>
         \<not> isRequired ns x store n)"
proof -
  have req: "isRequired ns x store n \<longleftrightarrow> (\<exists>p. parent n = Some p \<and> isRequired_try ns x store n p = Inr True)"
    by (auto simp: isRequired_def split: option.splits sum.splits)
  have rel: "\<forall>p pm. store (node_id p) = Some (MetaSchema pm) \<longrightarrow>
         getRelevantSchemaForRequireCheck x store p
           = Inr (if isArrayNodeWithItems x (schemaNode pm) then sn_items (schemaNode pm)
                  else SingleSchema (schema pm))"
    by (simp add: getRelevant_cases)
  have nul: "\<forall>p pe. store (node_id p) = Some (MetaError pe) \<longrightarrow>
         getRelevantSchemaForRequireCheck x store p = Inr NullSchema"
    by (simp add: getRelevant_cases)
  have rest: "(parent n = None \<longrightarrow> \<not> isRequired ns x store n)
   \<and> (\<forall>m. getSchemaNodeMetadata store n = Inr m \<and> path m = [] \<longrightarrow> \<not> isRequired ns x store n)
   \<and> (\<forall>p m. parent n = Some p \<and> getSchemaNodeMetadata store n = Inr m \<and> path m \<noteq> [] \<longrightarrow>
         (isRequired ns x store n \<longleftrightarrow>
            (\<exists>s required.
               getRelevantSchemaForRequireCheck x store p = Inr (SingleSchema s)
             \<and> getPrimaryType x s = Inr (JStr ''object'')
             \<and> dict_index (schema_fields s) ''required'' = JArr required
             \<and> (\<exists>seg. ToString ns (last (path m)) = Inr seg \<and> JStr seg \<in> set required))))
   \<and> (\<forall>e. getSchemaNodeMetadata store n = Inl e \<longrightarrow> \<not> isRequired ns x store n)
   \<and> (\<forall>p e. parent n = Some p \<and> getRelevantSchemaForRequireCheck x store p = Inl e \<longrightarrow>
         \<not> isRequired ns x store n)
   \<and> (\<forall>p s e. parent n = Some p \<and> getRelevantSchemaForRequireCheck x store p = Inr (SingleSchema s)
           \<and> getPrimaryType x s = Inl e \<longrightarrow>
         \<not> isRequired ns x store n)"
    unfolding req isRequired_try_True by auto
  show ?thesis
    using rel nul rest by blast
qed

theorem isRequired_characterisation_witness:
  "isRequired Number_toString_int sample_ext sample_store id_node
   \<and> \<not> isRequired Number_toString_int sample_ext sample_store name_node
   \<and> isRequired Number_toString_int sample_ext sample_store entry_node
   \<and> \<not> isRequired Number_toString_int sample_ext sample_store root_node
   \<and> \<not> isRequired Number_toString_int sample_ext sample_store object_node
   \<and> \<not> isRequired Number_toString_int sample_ext sample_store error_node
   \<and> \<not> isRequired Number_toString_int throwing_ext sample_store id_node
   \<and> getRelevantSchemaForRequireCheck sample_ext sample_store object_node = Inr (SingleSchema object_schema)
   \<and> getRelevantSchemaForRequireCheck sample_ext sample_store list_node = Inr (SingleSchema object_schema)
   \<and> getRelevantSchemaForRequireCheck sample_ext sample_store error_node = Inr NullSchema"
proof -
  note t = isRequired_characterisation[where ns = Number_toString_int and store = sample_store]
  have po: "parent id_node = Some object_node" "parent name_node = Some object_node"
    "parent entry_node = Some list_node" "parent root_node = None"
    by (simp_all add: id_node_def name_node_def entry_node_def root_node_def)
  have mi: "getSchemaNodeMetadata sample_store id_node
       = Inr \<lparr>path = [JStr ''properties'', JStr ''id''], schemaNode = plain_schemaNode, schema = string_schema\<rparr>"
    and mn: "getSchemaNodeMetadata sample_store name_node
       = Inr \<lparr>path = [JStr ''properties'', JStr ''name''], schemaNode = plain_schemaNode, schema = string_schema\<rparr>"
    and me: "getSchemaNodeMetadata sample_store entry_node
       = Inr \<lparr>path = [JStr ''properties'', JStr ''list'', JStr ''items'', JStr ''id''],
               schemaNode = plain_schemaNode, schema = string_schema\<rparr>"
    and mo: "getSchemaNodeMetadata sample_store object_node
       = Inr \<lparr>path = [], schemaNode = plain_schemaNode, schema = object_schema\<rparr>"
    and mb: "getSchemaNodeMetadata sample_store error_node = Inl (TypeError ''Schema node expected'')"
    by (simp_all add: getSchemaNodeMetadata_def getNodeMetadata_def sample_store_def id_node_def
          name_node_def entry_node_def object_node_def error_node_def)
  have so: "sample_store (node_id object_node)
       = Some (MetaSchema \<lparr>path = [], schemaNode = plain_schemaNode, schema = object_schema\<rparr>)"
    and sl: "sample_store (node_id list_node)
       = Some (MetaSchema \<lparr>path = [JStr ''properties'', JStr ''list''],
                 schemaNode = plain_schemaNode\<lparr>sn_items := SingleSchema object_schema\<rparr>,
                 schema = list_schema\<rparr>)"
    and sb: "sample_store (node_id error_node) = Some (MetaError ''Could not resolve the schema'')"
    by (simp_all add: sample_store_def object_node_def list_node_def error_node_def)
  have na: "\<not> isArrayNodeWithItems sample_ext plain_schemaNode"
    "isArrayNodeWithItems sample_ext (plain_schemaNode\<lparr>sn_items := SingleSchema object_schema\<rparr>)"
    "\<not> isArrayNodeWithItems throwing_ext plain_schemaNode"
    by (simp_all add: sample_ext_def throwing_ext_def plain_schemaNode_def)
  have pt: "getPrimaryType sample_ext object_schema = Inr (JStr ''object'')"
    "getPrimaryType throwing_ext object_schema = Inl (TypeError ''Cannot read the type'')"
    by (simp_all add: sample_ext_def throwing_ext_def object_schema_def dict_index_def dict_get_def)
  have rq: "dict_index (schema_fields object_schema) ''required'' = JArr [JStr ''id'']"
    by (simp add: object_schema_def dict_index_def dict_get_def)
  have ro: "getRelevantSchemaForRequireCheck sample_ext sample_store object_node
               = Inr (SingleSchema object_schema)"
    using t[where n = id_node and x = sample_ext] so na by simp
  have ro': "getRelevantSchemaForRequireCheck throwing_ext sample_store object_node
               = Inr (SingleSchema object_schema)"
    using t[where n = id_node and x = throwing_ext] so na by simp
  have rl: "getRelevantSchemaForRequireCheck sample_ext sample_store list_node
               = Inr (SingleSchema object_schema)"
    using t[where n = id_node and x = sample_ext] sl na by simp
  have rb: "getRelevantSchemaForRequireCheck sample_ext sample_store error_node = Inr NullSchema"
    using t[where n = id_node and x = sample_ext] sb by simp
  have 1: "isRequired Number_toString_int sample_ext sample_store id_node"
    using t[where n = id_node and x = sample_ext] po(1) mi ro pt rq by simp
  have 2: "\<not> isRequired Number_toString_int sample_ext sample_store name_node"
    using t[where n = name_node and x = sample_ext] po(2) mn ro pt rq by simp
  have 3: "isRequired Number_toString_int sample_ext sample_store entry_node"
    using t[where n = entry_node and x = sample_ext] po(3) me rl pt rq by simp
  have 4: "\<not> isRequired Number_toString_int sample_ext sample_store root_node"
    using t[where n = root_node and x = sample_ext] po(4) by simp
  have 5: "\<not> isRequired Number_toString_int sample_ext sample_store object_node"
    using t[where n = object_node and x = sample_ext] mo by simp
  have 6: "\<not> isRequired Number_toString_int sample_ext sample_store error_node"
    using t[where n = error_node and x = sample_ext] mb by simp
  have 7: "\<not> isRequired Number_toString_int throwing_ext sample_store id_node"
    using t[where n = id_node and x = throwing_ext] po(1) ro' pt(2) by blast
  show ?thesis
    using 1 2 3 4 5 6 7 ro rl rb by simp
qed

text \<open>
  C3, as amended.  Let the candidate list of a combiner node be \<open>items\<close>, and let the
  user select the branch schema \<open>items ! i\<close>.  The handler calls \<open>preventDefault\<close> if
  it is given an event, then writes into the choice state, under the id of the node, the
  index \<open>j\<close> of the first candidate that is the same object as the selected one, and
  then calls \<open>populateCombiner\<close> with the selected schema, the path of the node extended
  with \<open>j\<close>, and \<open>false\<close> for the eager flag.  When the candidates are pairwise
  distinct objects, \<open>j\<close> is \<open>i\<close>.
\<close>

theorem onItemSelect_first_index:
  assumes items: "getCombinerOptions node = Some items" and i: "i < length items"
  shows "\<exists>j\<le>i.
      ref (items ! j) = ref (items ! i)
    \<and> (\<forall>k<j. ref (items ! k) \<noteq> ref (items ! i))
    \<and> (distinct (map ref items) \<longrightarrow> j = i)
    \<and> onItemSelect x node meta (items ! i) e
        = Inr ((if e then [PreventDefault] else [])
               @ [SetChoiceForNode (node_id node) (int j),
                  PopulateCombiner (addChildrenToTreeListNode x node) (items ! i)
                    (path meta @ [JNum (of_int (int j))]) False])"
proof -
  from indexOf_first[OF i refl] obtain j where j: "j \<le> i" "indexOf items (items ! i) = int j"
    "ref (items ! j) = ref (items ! i)" "\<forall>k<j. ref (items ! k) \<noteq> ref (items ! i)" by blast
  have d: "j = i" if "distinct (map ref items)"
  proof -
    have "map ref items ! j = map ref items ! i" using j(1,3) i by simp
    then show ?thesis
      using that nth_eq_iff_index_eq[of "map ref items" j i] j(1) i by simp
  qed
  show ?thesis
    using j d by (intro exI[of _ j]) (simp add: onItemSelect_def items Let_def)
qed

theorem onItemSelect_first_index_witness:
  "getCombinerOptions choice_node = Some [string_schema, number_schema]
   \<and> onItemSelect sample_ext choice_node choice_meta number_schema True
       = Inr [PreventDefault,
              SetChoiceForNode ''choice'' 1,
              PopulateCombiner (addChildrenToTreeListNode sample_ext choice_node) number_schema
                [JStr ''properties'', JStr ''choice'', JStr ''oneOf'', JNum 1] False]"
proof -
  have items: "getCombinerOptions choice_node = Some [string_schema, number_schema]"
    by (simp add: getCombinerOptions_def choice_node_def)
  have d: "distinct (map ref [string_schema, number_schema])"
    by (simp add: string_schema_def number_schema_def)
  from onItemSelect_first_index[OF items, of 1 sample_ext choice_meta True] d
  have "onItemSelect sample_ext choice_node choice_meta number_schema True
        = Inr ([PreventDefault]
               @ [SetChoiceForNode (node_id choice_node) (int 1),
                  PopulateCombiner (addChildrenToTreeListNode sample_ext choice_node) number_schema
                    (path choice_meta @ [JNum (of_int (int 1))]) False])"
    by auto
  then show ?thesis using items by (simp add: choice_node_def choice_meta_def)
qed

text \<open>
  C3 as stated fails when one schema object is a candidate twice: selecting it at index 1
  writes index 0 and extends the path with 0.
\<close>

theorem onItemSelect_twin_counterexample:
  "getCombinerOptions twin_choice_node = Some [string_schema, string_schema]
   \<and> onItemSelect sample_ext twin_choice_node choice_meta ([string_schema, string_schema] ! 1) False
       = Inr [SetChoiceForNode ''twin'' 0,
              PopulateCombiner (addChildrenToTreeListNode sample_ext twin_choice_node) string_schema
                [JStr ''properties'', JStr ''choice'', JStr ''oneOf'', JNum 0] False]
   \<and> onItemSelect sample_ext twin_choice_node choice_meta ([string_schema, string_schema] ! 1) False
       \<noteq> Inr [SetChoiceForNode ''twin'' 1,
              PopulateCombiner (addChildrenToTreeListNode sample_ext twin_choice_node) string_schema
                [JStr ''properties'', JStr ''choice'', JStr ''oneOf'', JNum 1] False]"
  by (simp add: onItemSelect_def getCombinerOptions_def twin_choice_node_def choice_meta_def Let_def)

text \<open>
  C5, as amended.  Rendering the row of a node whose metadata is an error placeholder
  gives an error row.  Rendering the row of a node with schema metadata gives a property
  row exactly when the parent of the node (if any) has a list of children and, at level 0
  or deeper, schema metadata; the node is a reference node or its primary type can be
  read; the node has no \<open>metadata\<close> object or its \<open>properties\<close> has a branch at the
  chosen index; and \<open>String\<close> can convert every value of the validations the row hands
  to \<open>Validations\<close>.  In every other case rendering throws: whatever it returns is
  one of the two rows.  What rendering the row of another node gives, if that node is not
  a child of this one, is the same whatever metadata and whatever choice this node
  carries, and so whether or not rendering this row throws.
\<close>

theorem SchemaRow_outcomes:
  "(\<forall>msg. store (node_id n) = Some (MetaError msg) \<longrightarrow>
       SchemaRow ns x store state className n isExpanded
         = Inr (Row className (ICON_DIMENSION * getLevel x n) (ErrorRow (SchemaErrorRow msg))))
   \<and> (\<forall>m. store (node_id n) = Some (MetaSchema m) \<longrightarrow>
        ((\<exists>pr. SchemaRow ns x store state className n isExpanded
                 = Inr (Row className (ICON_DIMENSION * getLevel x n) (PropertyRow pr)))
         \<longleftrightarrow>
           (\<forall>p. parent n = Some p \<longrightarrow>
                 children p \<noteq> None
                 \<and> (getLevel x p \<ge> 0 \<longrightarrow> (\<exists>pm. store (node_id p) = Some (MetaSchema pm))))
         \<and> (isRefNode x (schemaNode m) \<or> (\<exists>t. getPrimaryType_node x (schemaNode m) = Inr t))
         \<and> (metadata n = MetadataUndefined
              \<or> (\<exists>items item. metadata n = MetadataObject (Some items)
                    \<and> array_index items (getChoiceForNode state (node_id n)) = Some item))
         \<and> (\<forall>k v. (k, v) \<in> set (validations_props (schemaNode m)) \<longrightarrow>
                 (\<exists>s. ToString ns v = Inr s))))
   \<and> (\<forall>r. SchemaRow ns x store state className n isExpanded = Inr r \<longrightarrow>
         (\<exists>pr m. store (node_id n) = Some (MetaSchema m)
             \<and> r = Row className (ICON_DIMENSION * getLevel x n) (PropertyRow pr))
       \<or> (\<exists>msg. store (node_id n) = Some (MetaError msg)
             \<and> r = Row className (ICON_DIMENSION * getLevel x n) (ErrorRow (SchemaErrorRow msg))))
   \<and> (\<forall>m store' state' className' isExpanded'.
         node_id m \<noteq> node_id n \<and> (\<forall>p. parent m = Some p \<longrightarrow> node_id p \<noteq> node_id n)
         \<and> (\<forall>i. i \<noteq> node_id n \<longrightarrow> store' i = store i \<and> state' i = state i) \<longrightarrow>
         SchemaRow ns x store' state' className' m isExpanded'
           = SchemaRow ns x store state className' m isExpanded')"
proof (intro conjI allI impI)
  fix msg assume "store (node_id n) = Some (MetaError msg)"
  then show "SchemaRow ns x store state className n isExpanded
         = Inr (Row className (ICON_DIMENSION * getLevel x n) (ErrorRow (SchemaErrorRow msg)))"
    by (simp add: SchemaRow_def getNodeMetadata_def)
next
  fix m
  assume s: "store (node_id n) = Some (MetaSchema m)"
  then have meta: "getSchemaNodeMetadata store n = Inr m"
    by (simp add: getSchemaNodeMetadata_def getNodeMetadata_def)
  have "(\<exists>pr. SchemaRow ns x store state className n isExpanded
                 = Inr (Row className (ICON_DIMENSION * getLevel x n) (PropertyRow pr)))
        \<longleftrightarrow> (\<exists>pr. SchemaPropertyRow ns x store state n isExpanded = Inr pr)"
    using s by (auto simp: SchemaRow_def getNodeMetadata_def split: sum.splits)
  also have "\<dots> \<longleftrightarrow>
           (\<forall>p. parent n = Some p \<longrightarrow>
                 children p \<noteq> None
                 \<and> (getLevel x p \<ge> 0 \<longrightarrow> (\<exists>pm. store (node_id p) = Some (MetaSchema pm))))
         \<and> (isRefNode x (schemaNode m) \<or> (\<exists>t. getPrimaryType_node x (schemaNode m) = Inr t))
         \<and> (metadata n = MetadataUndefined
              \<or> (\<exists>items item. metadata n = MetadataObject (Some items)
                    \<and> array_index items (getChoiceForNode state (node_id n)) = Some item))
         \<and> (\<forall>k v. (k, v) \<in> set (validations_props (schemaNode m)) \<longrightarrow>
                 (\<exists>s. ToString ns v = Inr s))"
    unfolding SchemaPropertyRow_ok parentSchemaNode_of_ok has_Ref_ok select_of_ok render_Validations_ok
    using meta by auto
  finally show "(\<exists>pr. SchemaRow ns x store state className n isExpanded
                 = Inr (Row className (ICON_DIMENSION * getLevel x n) (PropertyRow pr)))
         \<longleftrightarrow>
           (\<forall>p. parent n = Some p \<longrightarrow>
                 children p \<noteq> None
                 \<and> (getLevel x p \<ge> 0 \<longrightarrow> (\<exists>pm. store (node_id p) = Some (MetaSchema pm))))
         \<and> (isRefNode x (schemaNode m) \<or> (\<exists>t. getPrimaryType_node x (schemaNode m) = Inr t))
         \<and> (metadata n = MetadataUndefined
              \<or> (\<exists>items item. metadata n = MetadataObject (Some items)
                    \<and> array_index items (getChoiceForNode state (node_id n)) = Some item))
         \<and> (\<forall>k v. (k, v) \<in> set (validations_props (schemaNode m)) \<longrightarrow>
                 (\<exists>s. ToString ns v = Inr s))" .
next
  fix r assume "SchemaRow ns x store state className n isExpanded = Inr r"
  then show "(\<exists>pr m. store (node_id n) = Some (MetaSchema m)
             \<and> r = Row className (ICON_DIMENSION * getLevel x n) (PropertyRow pr))
       \<or> (\<exists>msg. store (node_id n) = Some (MetaError msg)
             \<and> r = Row className (ICON_DIMENSION * getLevel x n) (ErrorRow (SchemaErrorRow msg)))"
    by (auto simp: SchemaRow_def getNodeMetadata_def split: option.splits TreeNodeMeta.splits sum.splits)
next
  fix m store' state' className' isExpanded'
  assume a: "node_id m \<noteq> node_id n \<and> (\<forall>p. parent m = Some p \<longrightarrow> node_id p \<noteq> node_id n)
         \<and> (\<forall>i. i \<noteq> node_id n \<longrightarrow> store' i = store i \<and> state' i = state i)"
  show "SchemaRow ns x store' state' className' m isExpanded'
           = SchemaRow ns x store state className' m isExpanded'"
  proof (rule SchemaRow_frame[where store'=store' and store=store and state'=state' and state=state and m=m])
    show "store' (node_id m) = store (node_id m)" using a by simp
    show "state' (node_id m) = state (node_id m)" using a by simp
    fix p assume "parent m = Some p"
    then show "store' (node_id p) = store (node_id p)" using a by simp
  qed
qed

theorem SchemaRow_outcomes_witness:
  "(\<exists>pr. SchemaRow Number_toString_int sample_ext sample_store (\<lambda>i. None) None id_node None
            = Inr (Row None 20 (PropertyRow pr)))
   \<and> (\<exists>pr. SchemaRow Number_toString_int sample_ext sample_store (\<lambda>i. None) None choice_node None
            = Inr (Row None 20 (PropertyRow pr)))
   \<and> SchemaRow Number_toString_int sample_ext sample_store (\<lambda>i. None) None age_node None
       = Inr (Row None 20 (PropertyRow
           \<lparr>row_caret = None, row_divider = None, row_property = ''age'', row_select = None,
                row_description = Some (JStr ''Age in years''), row_required = False,
                row_validations =
                  [NumberValidations_block
                     (Some (''sl-flex sl-my-2 sl-text-muted'',
                            [Value 0 ''>= 0'' ''sl-mr-2'', Value 1 ''<= 150'' ''sl-mr-2''])),
                   KeyValueValidations_block
                     [Some (''default'', ''Default value'', [TextValue (Some ''18'') (Some ''18'') ''sl-ml-2'']),
                      Some (''multipleOf'', ''Multiple of'', [TextValue (Some ''1'') (Some ''1'') ''sl-ml-2''])],
                   NameValidations_block
                     (Some (''sl-flex sl-flex-wrap sl-my-2'',
                            [TextValue (Some ''deprecated'') (Some ''deprecated'')
                               ''sl-mr-2 sl-text-muted sl-capitalize'']))]\<rparr>))
   \<and> SchemaRow Number_toString_int sample_ext sample_store (\<lambda>i. None) None error_node None
       = Inr (Row None 20 (ErrorRow (SchemaErrorRow ''Could not resolve the schema'')))
   \<and> \<not> (\<exists>pr. SchemaRow Number_toString_int sample_ext sample_store (\<lambda>i. None) None empty_choice_node None
              = Inr (Row None 20 (PropertyRow pr)))
   \<and> SchemaRow Number_toString_int sample_ext sample_store (\<lambda>i. None) None id_node None
       = SchemaRow Number_toString_int sample_ext
           (sample_store(''empty'' := Some (MetaSchema choice_meta))) ((\<lambda>i. None)(''empty'' := Some 1))
           None id_node None"
proof -
  note t = SchemaRow_outcomes[where ns = Number_toString_int and x = sample_ext and store = sample_store
                    and state = "\<lambda>i. None" and className = None and isExpanded = None]
  have l: "ICON_DIMENSION * getLevel sample_ext id_node = 20"
    "ICON_DIMENSION * getLevel sample_ext choice_node = 20"
    "ICON_DIMENSION * getLevel sample_ext age_node = 20"
    "ICON_DIMENSION * getLevel sample_ext error_node = 20"
    "ICON_DIMENSION * getLevel sample_ext empty_choice_node = 20"
    by (simp_all add: ICON_DIMENSION_def sample_defs)
  have po: "parent id_node = Some object_node" "parent choice_node = Some object_node"
    "parent age_node = Some object_node"
    "children object_node \<noteq> None"
    "sample_store (node_id object_node)
       = Some (MetaSchema \<lparr>path = [], schemaNode = plain_schemaNode, schema = object_schema\<rparr>)"
    by (simp_all add: id_node_def choice_node_def age_node_def object_node_def sample_store_def)
  have si: "sample_store (node_id id_node)
       = Some (MetaSchema \<lparr>path = [JStr ''properties'', JStr ''id''],
                              schemaNode = plain_schemaNode, schema = string_schema\<rparr>)"
    and sc: "sample_store (node_id choice_node) = Some (MetaSchema choice_meta)"
    and sa: "sample_store (node_id age_node)
       = Some (MetaSchema \<lparr>path = [JStr ''properties'', JStr ''age''],
                              schemaNode = age_schemaNode, schema = age_schema\<rparr>)"
    and se: "sample_store (node_id error_node) = Some (MetaError ''Could not resolve the schema'')"
    and sm: "sample_store (node_id empty_choice_node)
       = Some (MetaSchema \<lparr>path = [JStr ''properties'', JStr ''empty'', JStr ''oneOf''],
                              schemaNode = plain_schemaNode\<lparr>sn_combiner := Some ''oneOf''\<rparr>,
                              schema = Schema 5 [(''oneOf'', JArr [])]\<rparr>)"
    by (simp_all add: sample_store_def id_node_def choice_node_def age_node_def error_node_def
          empty_choice_node_def)
  have ty: "\<exists>t. getPrimaryType_node sample_ext sn = Inr t" for sn
    by (simp add: sample_ext_def)
  have mi: "metadata id_node = MetadataUndefined" "metadata age_node = MetadataUndefined"
    by (simp_all add: id_node_def age_node_def)
  have mc: "metadata choice_node = MetadataObject (Some [string_schema, number_schema])
            \<and> array_index [string_schema, number_schema]
                  (getChoiceForNode (\<lambda>i. None) (node_id choice_node)) = Some string_schema"
    by (simp add: choice_node_def getChoiceForNode_def array_index_def)
  have me: "metadata empty_choice_node = MetadataObject (Some [])"
    "array_index [] (getChoiceForNode (\<lambda>i. None) (node_id empty_choice_node)) = (None :: JSONSchema4 option)"
    by (simp_all add: empty_choice_node_def array_index_def)
  have vp: "validations_props plain_schemaNode = []"
    "validations_props (plain_schemaNode\<lparr>sn_combiner := Some ''oneOf''\<rparr>) = []"
    "validations_props age_schemaNode
       = [(''default'', JNum 18), (''minimum'', JNum 0), (''maximum'', JNum 150),
          (''multipleOf'', JNum 1), (''deprecated'', JBool True)]"
    by (simp_all add: validations_props_def plain_schemaNode_def age_schemaNode_def dict_index_def
          dict_get_def)
  have 1: "\<exists>pr. SchemaRow Number_toString_int sample_ext sample_store (\<lambda>i. None) None id_node None
            = Inr (Row None (ICON_DIMENSION * getLevel sample_ext id_node) (PropertyRow pr))"
    using t[where n = id_node, THEN conjunct2, THEN conjunct1, rule_format, OF si] po ty mi vp
    by simp
  have 2: "\<exists>pr. SchemaRow Number_toString_int sample_ext sample_store (\<lambda>i. None) None choice_node None
            = Inr (Row None (ICON_DIMENSION * getLevel sample_ext choice_node) (PropertyRow pr))"
    using t[where n = choice_node, THEN conjunct2, THEN conjunct1, rule_format, OF sc] po ty mc vp
    by (simp add: choice_meta_def)
  have 3: "\<exists>pr. SchemaRow Number_toString_int sample_ext sample_store (\<lambda>i. None) None age_node None
            = Inr (Row None (ICON_DIMENSION * getLevel sample_ext age_node) (PropertyRow pr))"
    using t[where n = age_node, THEN conjunct2, THEN conjunct1, rule_format, OF sa] po ty mi vp
    by auto
  have 4: "SchemaRow Number_toString_int sample_ext sample_store (\<lambda>i. None) None error_node None
       = Inr (Row None (ICON_DIMENSION * getLevel sample_ext error_node)
                (ErrorRow (SchemaErrorRow ''Could not resolve the schema'')))"
    using se by (intro t[where n = error_node, THEN conjunct1, rule_format])
  have 5: "\<not> (\<exists>pr. SchemaRow Number_toString_int sample_ext sample_store (\<lambda>i. None) None empty_choice_node None
              = Inr (Row None (ICON_DIMENSION * getLevel sample_ext empty_choice_node) (PropertyRow pr)))"
    using t[where n = empty_choice_node, THEN conjunct2, THEN conjunct1, rule_format, OF sm] me
    by simp
  have 6: "SchemaRow Number_toString_int sample_ext
           (sample_store(''empty'' := Some (MetaSchema choice_meta))) ((\<lambda>i. None)(''empty'' := Some 1))
           None id_node None
       = SchemaRow Number_toString_int sample_ext sample_store (\<lambda>i. None) None id_node None"
    by (intro t[where n = empty_choice_node, THEN conjunct2, THEN conjunct2, THEN conjunct2, rule_format])
       (simp add: id_node_def empty_choice_node_def object_node_def)
  from 3 obtain pr where
    "SchemaRow Number_toString_int sample_ext sample_store (\<lambda>i. None) None age_node None
       = Inr (Row None (ICON_DIMENSION * getLevel sample_ext age_node) (PropertyRow pr))" ..
  then have 7: "SchemaRow Number_toString_int sample_ext sample_store (\<lambda>i. None) None age_node None
       = Inr (Row None (ICON_DIMENSION * getLevel sample_ext age_node) (PropertyRow
           \<lparr>row_caret = None, row_divider = None, row_property = ''age'', row_select = None,
                row_description = Some (JStr ''Age in years''), row_required = False,
                row_validations =
                  [NumberValidations_block
                     (Some (''sl-flex sl-my-2 sl-text-muted'',
                            [Value 0 ''>= 0'' ''sl-mr-2'', Value 1 ''<= 150'' ''sl-mr-2''])),
                   KeyValueValidations_block
                     [Some (''default'', ''Default value'', [TextValue (Some ''18'') (Some ''18'') ''sl-ml-2'']),
                      Some (''multipleOf'', ''Multiple of'', [TextValue (Some ''1'') (Some ''1'') ''sl-ml-2''])],
                   NameValidations_block
                     (Some (''sl-flex sl-flex-wrap sl-my-2'',
                            [TextValue (Some ''deprecated'') (Some ''deprecated'')
                               ''sl-mr-2 sl-text-muted sl-capitalize'']))]\<rparr>))"
    by (simp add: SchemaRow_def getNodeMetadata_def sa age_row)
  show ?thesis
    using 1 2 7 4 5 6 unfolding l by simp
qed

text \<open>
  C5 as stated fails: \<open>SchemaRow\<close> catches nothing.  For a node with schema metadata
  whose \<open>properties\<close> is empty, reading the type of the chosen branch throws a
  \<open>TypeError\<close>, and it leaves \<open>SchemaRow\<close>.
\<close>

theorem SchemaRow_throws_counterexample:
  "SchemaRow Number_toString_int sample_ext sample_store (\<lambda>i. None) None empty_choice_node None
     = Inl (TypeError ''Cannot read properties of undefined (reading type)'')"
  by (simp add: SchemaRow_def SchemaPropertyRow_def getNodeMetadata_def getSchemaNodeMetadata_def
        parentSchemaNode_of_def has_Ref_def divider_of_def select_of_def getCombinerOptions_def
        getChoiceForNode_def array_index_def Let_def sample_defs)

text \<open>
  C8.  For a node whose metadata is an error placeholder, \<open>SchemaRow\<close> gives the row
  that holds \<open>SchemaErrorRow\<close> with the placeholder's message, a \<open>span\<close> showing the
  message, in place of a property row.  The row of any other node that is not a child of
  this node is the same whatever metadata this node carries.
\<close>

theorem SchemaRow_error_placeholder:
  assumes "store (node_id n) = Some (MetaError msg)"
  shows "SchemaRow ns x store state className n isExpanded
           = Inr (Row className (ICON_DIMENSION * getLevel x n) (ErrorRow (SchemaErrorRow msg)))
       \<and> SchemaErrorRow msg = Span ''text-red-5 dark:text-red-4'' msg
       \<and> (\<forall>m meta className' isExpanded'.
             node_id m \<noteq> node_id n \<and> (\<forall>p. parent m = Some p \<longrightarrow> node_id p \<noteq> node_id n) \<longrightarrow>
             SchemaRow ns x store state className' m isExpanded'
               = SchemaRow ns x (store(node_id n := meta)) state className' m isExpanded')"
proof (intro conjI allI impI)
  show "SchemaRow ns x store state className n isExpanded
           = Inr (Row className (ICON_DIMENSION * getLevel x n) (ErrorRow (SchemaErrorRow msg)))"
    using assms by (simp add: SchemaRow_def getNodeMetadata_def)
  show "SchemaErrorRow msg = Span ''text-red-5 dark:text-red-4'' msg"
    by (simp add: SchemaErrorRow_def)
  fix m meta className' isExpanded'
  assume a: "node_id m \<noteq> node_id n \<and> (\<forall>p. parent m = Some p \<longrightarrow> node_id p \<noteq> node_id n)"
  show "SchemaRow ns x store state className' m isExpanded'
               = SchemaRow ns x (store(node_id n := meta)) state className' m isExpanded'"
  proof (rule SchemaRow_frame[where store'="store(node_id n := meta)" and store=store
                and state'=state and state=state and m=m, symmetric])
    show "(store(node_id n := meta)) (node_id m) = store (node_id m)"
      using a by simp
    show "state (node_id m) = state (node_id m)" ..
    fix p assume "parent m = Some p"
    then show "(store(node_id n := meta)) (node_id p) = store (node_id p)"
      using a by simp
  qed
qed

theorem SchemaRow_error_placeholder_witness:
  "sample_store (node_id error_node) = Some (MetaError ''Could not resolve the schema'')
   \<and> SchemaRow Number_toString_int sample_ext sample_store (\<lambda>i. None) None error_node None
       = Inr (Row None 20 (ErrorRow (Span ''text-red-5 dark:text-red-4'' ''Could not resolve the schema'')))
   \<and> SchemaRow Number_toString_int sample_ext sample_store (\<lambda>i. None) None id_node None
       = SchemaRow Number_toString_int sample_ext
           (sample_store(''bad'' := Some (MetaSchema choice_meta))) (\<lambda>i. None) None id_node None"
proof -
  have e: "sample_store (node_id error_node) = Some (MetaError ''Could not resolve the schema'')"
    by (simp add: sample_store_def error_node_def)
  have s: "node_id id_node \<noteq> node_id error_node
           \<and> (\<forall>p. parent id_node = Some p \<longrightarrow> node_id p \<noteq> node_id error_node)"
    by (simp add: id_node_def error_node_def object_node_def)
  have l: "ICON_DIMENSION * getLevel sample_ext error_node = 20"
    by (simp add: ICON_DIMENSION_def sample_ext_def error_node_def object_node_def root_node_def)
  have i: "node_id error_node = ''bad''"
    by (simp add: error_node_def)
  from SchemaRow_error_placeholder[where store = sample_store and n = error_node
        and msg = "''Could not resolve the schema''" and ns = Number_toString_int and x = sample_ext
        and state = "\<lambda>i. None" and className = None and isExpanded = None, OF e] s l i
  show ?thesis using e by auto
qed

end
